theory Spec2Isabelle
  imports Main
begin

section \<open>The resource executor's updaters (pkg/koordlet/util/resourceexecutor/updater.go)\<close>

text \<open>
  A shallow embedding of \<^verbatim>\<open>updater.go\<close>. Go pointers to updater structs are addresses
  into an explicit heap, so that "the original updater" and "a clone" are different
  addresses and a field assignment through one pointer is visible through every alias.
  Calls that leave the file (the cgroup read/write primitives, the audit sink) are
  recorded in a trace, so that "no write" and "exactly one write" are statements about
  the trace. A Go panic (failed type assertion, nil dereference, call of a nil func) is
  the result \<open>Panicked\<close>. Calls to \<^verbatim>\<open>klog\<close> only log and are left out.
\<close>

subsection \<open>strconv.ParseInt(s, 10, 64)\<close>

text \<open>
  The Go standard library's \<^verbatim>\<open>strconv.ParseInt\<close> at base 10 and bit size 64, following
  its implementation: an optional sign, then \<^verbatim>\<open>ParseUint\<close> on the rest (at least one
  character, decimal digits only, a range error as soon as the unsigned value leaves
  64 bits), then the signed range check. The result is an \<open>int\<close> inside the int64 range.
\<close>

datatype NumError = ErrSyntax | ErrRange

definition digit_of :: "char \<Rightarrow> nat option" where
  "digit_of c =
     (let k = (of_char c :: nat)
      in if of_char (CHR ''0'') \<le> k \<and> k \<le> of_char (CHR ''9'')
         then Some (k - of_char (CHR ''0'')) else None)"

definition maxUint64 :: nat where
  "maxUint64 = 2 ^ 64 - 1"

fun ParseUint_loop :: "string \<Rightarrow> nat \<Rightarrow> NumError + nat" where
  "ParseUint_loop [] n = Inr n"
| "ParseUint_loop (c # cs) n =
     (case digit_of c of
        None \<Rightarrow> Inl ErrSyntax
      | Some d \<Rightarrow>
          if n \<ge> maxUint64 div 10 + 1 then Inl ErrRange
          else if n * 10 + d > maxUint64 then Inl ErrRange
          else ParseUint_loop cs (n * 10 + d))"

definition ParseUint :: "string \<Rightarrow> NumError + nat" where
  "ParseUint s = (if s = [] then Inl ErrSyntax else ParseUint_loop s 0)"

definition ParseInt :: "string \<Rightarrow> NumError + int" where
  "ParseInt s =
     (case s of
        [] \<Rightarrow> Inl ErrSyntax
      | c # cs \<Rightarrow>
          let neg = (c = CHR ''-'');
              s1 = (if c = CHR ''+'' \<or> c = CHR ''-'' then cs else s)
          in (case ParseUint s1 of
                Inl ErrSyntax \<Rightarrow> Inl ErrSyntax
              | r \<Rightarrow>
                  let un = (case r of Inr n \<Rightarrow> n | Inl _ \<Rightarrow> maxUint64)
                  in if \<not> neg \<and> un \<ge> 2 ^ 63 then Inl ErrRange
                     else if neg \<and> un > 2 ^ 63 then Inl ErrRange
                     else Inr (if neg then - int un else int un)))"

subsection \<open>Errors\<close>

text \<open>
  Go's error values. The errors this file builds with \<^verbatim>\<open>fmt.Errorf\<close> are constructors
  that keep the formatted argument; \<open>SysError\<close> is an error handed back by a primitive
  of another package.
\<close>

type_synonym ResourceType = string

datatype error =
    ParseNewValueFailed string
  | NewValueNotInt64 NumError
  | OldValueNotInt64 NumError
  | NewValueNotValidCPUSet string
  | OldValueNotValidCPUSet string
  | NotFoundInCgroupRegistry ResourceType
  | NotRegistered ResourceType
  | SysError string

subsection \<open>Merge conditions\<close>

type_synonym MergeConditionFunc = "string \<Rightarrow> string \<Rightarrow> string \<times> bool \<times> error option"

definition MergeConditionIfValueIsLarger :: MergeConditionFunc where
  "MergeConditionIfValueIsLarger oldValue newValue =
     (case ParseInt newValue of
        Inl err \<Rightarrow> (newValue, False, Some (NewValueNotInt64 err))
      | Inr v \<Rightarrow>
          (case ParseInt oldValue of
             Inl err \<Rightarrow> (newValue, False, Some (OldValueNotInt64 err))
           | Inr old \<Rightarrow> (newValue, v > old, None)))"

text \<open>
  Modelled from the spec: the package \<^verbatim>\<open>pkg/util/cpuset\<close> is not among the sources. The
  spec gives its interface (\<^verbatim>\<open>parse(string) \<rightarrow> (Set, error)\<close>, \<^verbatim>\<open>Set.isSubsetOf\<close>,
  \<^verbatim>\<open>Set.union\<close>, \<^verbatim>\<open>Set.String()\<close>) and calls the operations subset and set union.
  A CPU set is a set of CPU indexes with HOL's subset and union; the parser and the
  renderer, whose syntax the spec does not fix, are parameters.
\<close>

type_synonym CPUSet = "nat set"

record cpuset_pkg =
  cpuset_Parse :: "string \<Rightarrow> string + CPUSet"
  cpuset_String :: "CPUSet \<Rightarrow> string"

definition IsSubsetOf :: "CPUSet \<Rightarrow> CPUSet \<Rightarrow> bool" where
  "IsSubsetOf s s2 = (s \<subseteq> s2)"

definition Union_cpuset :: "CPUSet \<Rightarrow> CPUSet \<Rightarrow> CPUSet" where
  "Union_cpuset s s2 = s \<union> s2"

definition MergeConditionIfCPUSetIsLooser :: "cpuset_pkg \<Rightarrow> MergeConditionFunc" where
  "MergeConditionIfCPUSetIsLooser cp oldValue newValue =
     (case cpuset_Parse cp newValue of
        Inl err \<Rightarrow> (newValue, False, Some (NewValueNotValidCPUSet err))
      | Inr v \<Rightarrow>
          (case cpuset_Parse cp oldValue of
             Inl err \<Rightarrow> (newValue, False, Some (OldValueNotValidCPUSet err))
           | Inr old \<Rightarrow>
               if IsSubsetOf v old then (newValue, False, None)
               else (cpuset_String cp (Union_cpuset v old), True, None)))"

subsection \<open>Collaborators outside the file\<close>

text \<open>
  Modelled from the spec: the interface \<^verbatim>\<open>sysutil.Resource\<close> (package
  \<^verbatim>\<open>pkg/koordlet/util/system\<close>) is not among the sources. The spec describes a
  descriptor that "exposes \<^verbatim>\<open>Path(parentDir) \<rightarrow> string\<close>,
  \<^verbatim>\<open>IsValid(value) \<rightarrow> (bool, message)\<close>, and an identity usable as
  \<^verbatim>\<open>ResourceType()\<close>"; a descriptor is the record of these three methods.
\<close>

record Resource =
  Resource_ResourceType :: ResourceType
  Resource_Path :: "string \<Rightarrow> string"
  Resource_IsValid :: "string \<Rightarrow> bool \<times> string"

text \<open>
  Modelled from the spec: the read/write primitives and the descriptor registry of
  \<^verbatim>\<open>sysutil\<close> are not among the sources. The spec lists them as
  \<^verbatim>\<open>readCurrentValue(parentDir, descriptor) \<rightarrow> (string, error)\<close>,
  \<^verbatim>\<open>writeIfDifferent(parentDir, descriptor, value) \<rightarrow> error\<close>,
  \<^verbatim>\<open>writeUnconditional(parentDir, descriptor, value) \<rightarrow> error\<close>,
  \<^verbatim>\<open>writeIfDifferent(path, value) \<rightarrow> error\<close> and
  \<^verbatim>\<open>lookup(kind, cgroupVersion) \<rightarrow> (descriptor, found)\<close>, and says nothing on when
  they fail. They are parameters over a state \<open>'w\<close> of the outside world (the kernel
  interface files): a read looks at the world, a write returns its error and the new
  world. \<^verbatim>\<open>filepath.Join\<close> of the standard library is a parameter as well.
\<close>

record 'w sysutil_pkg =
  CgroupFileRead :: "'w \<Rightarrow> string \<Rightarrow> Resource \<Rightarrow> error + string"
  CgroupFileWrite :: "'w \<Rightarrow> string \<Rightarrow> Resource \<Rightarrow> string \<Rightarrow> error option \<times> 'w"
  CgroupFileWriteIfDifferent :: "'w \<Rightarrow> string \<Rightarrow> Resource \<Rightarrow> string \<Rightarrow> error option \<times> 'w"
  CommonFileWriteIfDifferent :: "'w \<Rightarrow> string \<Rightarrow> string \<Rightarrow> error option \<times> 'w"
  DefaultRegistry_Get :: "'w \<Rightarrow> ResourceType \<Rightarrow> Resource option"
  filepath_Join :: "string \<Rightarrow> string \<Rightarrow> string"

text \<open>
  The calls that leave the file, in the order they are made. \<open>Audit reason path v\<close> is
  \<^verbatim>\<open>audit.V(5).Reason(reason).Message("update %v to %v", path, v).Do()\<close>; the other
  events are the calls of the primitives with their arguments.
\<close>

datatype event =
    Audit string string string
  | Call_CgroupFileRead string Resource
  | Call_CgroupFileWrite string Resource string
  | Call_CgroupFileWriteIfDifferent string Resource string
  | Call_CommonFileWriteIfDifferent string string

definition ReasonUpdateCgroups :: string where
  "ReasonUpdateCgroups = ''UpdateCgroups''"

definition ReasonUpdateSystemConfig :: string where
  "ReasonUpdateSystemConfig = ''UpdateSystemConfig''"

subsection \<open>Updater objects and the heap\<close>

type_synonym addr = nat

type_synonym Time = int

text \<open>
  A \<^verbatim>\<open>ResourceUpdater\<close> interface value is \<open>None\<close> (nil) or the address of an updater
  object; the object's constructor is its dynamic type.
\<close>

type_synonym ResourceUpdater = "addr option"

text \<open>
  The updater structs. The field \<open>cg_file\<close> holds a descriptor: every constructor of
  the file takes it from a successful lookup in the descriptor registry. Function values
  stored in updaters: the update functions of the file are named; the
  only merge function it builds is the closure of
  \<^verbatim>\<open>NewMergeableCgroupUpdaterWithCondition\<close>, which captures a merge condition. A nil
  func field is \<open>None\<close>.
\<close>

datatype UpdateFunc = Fn_CommonCgroupUpdateFunc | Fn_CommonDefaultUpdateFunc

datatype MergeUpdateFunc = Fn_MergeFuncUpdateCgroup MergeConditionFunc

record CgroupResourceUpdater =
  cg_file :: Resource
  cg_parentDir :: string
  cg_value :: string
  cg_lastUpdateTimestamp :: Time
  cg_updateFunc :: "UpdateFunc option"
  cg_mergeUpdateFunc :: "MergeUpdateFunc option"

record DefaultResourceUpdater =
  df_value :: string
  df_dir :: string
  df_file :: string
  df_lastUpdateTimestamp :: Time
  df_updateFunc :: "UpdateFunc option"

text \<open>
  \<^verbatim>\<open>GuestCgroupResourceUpdater\<close> embeds a pointer to a cgroup updater (possibly nil) and
  adds the sandbox identity.
\<close>

record GuestCgroupResourceUpdater =
  guest_CgroupResourceUpdater :: "addr option"
  guest_sandboxID :: string

datatype obj =
    CgroupObj CgroupResourceUpdater
  | DefaultObj DefaultResourceUpdater
  | GuestObj GuestCgroupResourceUpdater

record 'w state =
  heap :: "obj list"
  world :: 'w
  trace :: "event list"

datatype 'a res = Panicked | Returned 'a

definition lookup :: "'w state \<Rightarrow> addr \<Rightarrow> obj option" where
  "lookup st a = (if a < length (heap st) then Some (heap st ! a) else None)"

definition alloc :: "obj \<Rightarrow> 'w state \<Rightarrow> addr \<times> 'w state" where
  "alloc x st = (length (heap st), st\<lparr>heap := heap st @ [x]\<rparr>)"

definition store :: "addr \<Rightarrow> obj \<Rightarrow> 'w state \<Rightarrow> 'w state" where
  "store a x st = st\<lparr>heap := (heap st)[a := x]\<rparr>"

definition emit :: "event \<Rightarrow> 'w state \<Rightarrow> 'w state" where
  "emit e st = st\<lparr>trace := trace st @ [e]\<rparr>"

text \<open>
  The type assertions \<^verbatim>\<open>resource.(*CgroupResourceUpdater)\<close> and
  \<^verbatim>\<open>resource.(*DefaultResourceUpdater)\<close>: they succeed when the interface value holds
  a pointer of exactly that type and panic otherwise (\<open>None\<close>).
\<close>

definition assert_Cgroup :: "'w state \<Rightarrow> ResourceUpdater \<Rightarrow> (addr \<times> CgroupResourceUpdater) option" where
  "assert_Cgroup st resource =
     (case resource of
        None \<Rightarrow> None
      | Some a \<Rightarrow>
          (case lookup st a of
             Some (CgroupObj c) \<Rightarrow> Some (a, c)
           | _ \<Rightarrow> None))"

definition assert_Default :: "'w state \<Rightarrow> ResourceUpdater \<Rightarrow> (addr \<times> DefaultResourceUpdater) option" where
  "assert_Default st resource =
     (case resource of
        None \<Rightarrow> None
      | Some a \<Rightarrow>
          (case lookup st a of
             Some (DefaultObj d) \<Rightarrow> Some (a, d)
           | _ \<Rightarrow> None))"

text \<open>
  Method dispatch on an interface value. The three types have the methods of
  \<^verbatim>\<open>ResourceUpdater\<close>; the guest type declares none of its own, so each of its methods
  is the promoted method of the embedded \<^verbatim>\<open>*CgroupResourceUpdater\<close> and runs with the
  embedded pointer as receiver. \<open>None\<close> is the panic of a call on nil.
\<close>

datatype receiver =
    RecvCgroup addr CgroupResourceUpdater
  | RecvDefault addr DefaultResourceUpdater

definition dispatch :: "'w state \<Rightarrow> ResourceUpdater \<Rightarrow> receiver option" where
  "dispatch st r =
     (case r of
        None \<Rightarrow> None
      | Some a \<Rightarrow>
          (case lookup st a of
             None \<Rightarrow> None
           | Some (CgroupObj c) \<Rightarrow> Some (RecvCgroup a c)
           | Some (DefaultObj d) \<Rightarrow> Some (RecvDefault a d)
           | Some (GuestObj g) \<Rightarrow>
               (case guest_CgroupResourceUpdater g of
                  None \<Rightarrow> None
                | Some u \<Rightarrow>
                    (case lookup st u of
                       Some (CgroupObj c) \<Rightarrow> Some (RecvCgroup u c)
                     | _ \<Rightarrow> None))))"

subsection \<open>The methods of the updaters\<close>

definition ResourceType_of :: "'w state \<Rightarrow> ResourceUpdater \<Rightarrow> ResourceType res" where
  "ResourceType_of st r =
     (case dispatch st r of
        None \<Rightarrow> Panicked
      | Some (RecvCgroup u c) \<Rightarrow> Returned (Resource_ResourceType (cg_file c))
      | Some (RecvDefault u d) \<Rightarrow> Returned (df_file d))"

definition Path :: "'w sysutil_pkg \<Rightarrow> 'w state \<Rightarrow> ResourceUpdater \<Rightarrow> string res" where
  "Path sys st r =
     (case dispatch st r of
        None \<Rightarrow> Panicked
      | Some (RecvCgroup u c) \<Rightarrow> Returned (Resource_Path (cg_file c) (cg_parentDir c))
      | Some (RecvDefault u d) \<Rightarrow> Returned (filepath_Join sys (df_dir d) (df_file d)))"

definition Value :: "'w state \<Rightarrow> ResourceUpdater \<Rightarrow> string res" where
  "Value st r =
     (case dispatch st r of
        None \<Rightarrow> Panicked
      | Some (RecvCgroup u c) \<Rightarrow> Returned (cg_value c)
      | Some (RecvDefault u d) \<Rightarrow> Returned (df_value d))"

definition GetLastUpdateTimestamp :: "'w state \<Rightarrow> ResourceUpdater \<Rightarrow> Time res" where
  "GetLastUpdateTimestamp st r =
     (case dispatch st r of
        None \<Rightarrow> Panicked
      | Some (RecvCgroup u c) \<Rightarrow> Returned (cg_lastUpdateTimestamp c)
      | Some (RecvDefault u d) \<Rightarrow> Returned (df_lastUpdateTimestamp d))"

definition UpdateLastUpdateTimestamp :: "ResourceUpdater \<Rightarrow> Time \<Rightarrow> 'w state \<Rightarrow> 'w state res" where
  "UpdateLastUpdateTimestamp r t st =
     (case dispatch st r of
        None \<Rightarrow> Panicked
      | Some (RecvCgroup u c) \<Rightarrow>
          Returned (store u (CgroupObj (c\<lparr>cg_lastUpdateTimestamp := t\<rparr>)) st)
      | Some (RecvDefault u d) \<Rightarrow>
          Returned (store u (DefaultObj (d\<lparr>df_lastUpdateTimestamp := t\<rparr>)) st))"

text \<open>
  \<^verbatim>\<open>Clone\<close> builds a new struct from the fields of the receiver and returns a pointer
  to it.
\<close>

definition Clone :: "ResourceUpdater \<Rightarrow> 'w state \<Rightarrow> (ResourceUpdater \<times> 'w state) res" where
  "Clone r st =
     (case dispatch st r of
        None \<Rightarrow> Panicked
      | Some (RecvCgroup u c) \<Rightarrow>
          (let (a, st') =
                 alloc (CgroupObj
                   \<lparr>cg_file = cg_file c,
                    cg_parentDir = cg_parentDir c,
                    cg_value = cg_value c,
                    cg_lastUpdateTimestamp = cg_lastUpdateTimestamp c,
                    cg_updateFunc = cg_updateFunc c,
                    cg_mergeUpdateFunc = cg_mergeUpdateFunc c\<rparr>) st
           in Returned (Some a, st'))
      | Some (RecvDefault u d) \<Rightarrow>
          (let (a, st') =
                 alloc (DefaultObj
                   \<lparr>df_value = df_value d,
                    df_dir = df_dir d,
                    df_file = df_file d,
                    df_lastUpdateTimestamp = df_lastUpdateTimestamp d,
                    df_updateFunc = df_updateFunc d\<rparr>) st
           in Returned (Some a, st')))"

text \<open>
  The field assignment \<^verbatim>\<open>p.value = v\<close> through a pointer to a cgroup or a default
  updater struct, as in \<^verbatim>\<open>merged.value = oldStr\<close>.
\<close>

definition set_value :: "addr \<Rightarrow> string \<Rightarrow> 'w state \<Rightarrow> 'w state res" where
  "set_value u v st =
     (case lookup st u of
        Some (CgroupObj c) \<Rightarrow> Returned (store u (CgroupObj (c\<lparr>cg_value := v\<rparr>)) st)
      | Some (DefaultObj d) \<Rightarrow> Returned (store u (DefaultObj (d\<lparr>df_value := v\<rparr>)) st)
      | _ \<Rightarrow> Panicked)"

subsection \<open>The update functions\<close>

definition CommonCgroupUpdateFunc ::
  "'w sysutil_pkg \<Rightarrow> ResourceUpdater \<Rightarrow> 'w state \<Rightarrow> (error option \<times> 'w state) res" where
  "CommonCgroupUpdateFunc sys resource st =
     (case assert_Cgroup st resource of
        None \<Rightarrow> Panicked
      | Some (u, c) \<Rightarrow>
          (case Path sys st resource of
             Panicked \<Rightarrow> Panicked
           | Returned p \<Rightarrow>
               (case Value st resource of
                  Panicked \<Rightarrow> Panicked
                | Returned v \<Rightarrow>
                    (let st1 = emit (Audit ReasonUpdateCgroups p v) st;
                         st2 = emit (Call_CgroupFileWriteIfDifferent
                                       (cg_parentDir c) (cg_file c) (cg_value c)) st1;
                         (err, w) = CgroupFileWriteIfDifferent sys (world st2)
                                      (cg_parentDir c) (cg_file c) (cg_value c)
                     in Returned (err, st2\<lparr>world := w\<rparr>)))))"

definition CommonDefaultUpdateFunc ::
  "'w sysutil_pkg \<Rightarrow> ResourceUpdater \<Rightarrow> 'w state \<Rightarrow> (error option \<times> 'w state) res" where
  "CommonDefaultUpdateFunc sys resource st =
     (case assert_Default st resource of
        None \<Rightarrow> Panicked
      | Some (u, c) \<Rightarrow>
          (case Path sys st resource of
             Panicked \<Rightarrow> Panicked
           | Returned p \<Rightarrow>
               (case Value st resource of
                  Panicked \<Rightarrow> Panicked
                | Returned v \<Rightarrow>
                    (let st1 = emit (Audit ReasonUpdateSystemConfig p v) st;
                         path = filepath_Join sys (df_dir c) (df_file c);
                         st2 = emit (Call_CommonFileWriteIfDifferent path (df_value c)) st1;
                         (err, w) = CommonFileWriteIfDifferent sys (world st2) path (df_value c)
                     in Returned (err, st2\<lparr>world := w\<rparr>)))))"

text \<open>A call through an \<^verbatim>\<open>UpdateFunc\<close> value; calling a nil func panics.\<close>

definition call_UpdateFunc ::
  "'w sysutil_pkg \<Rightarrow> UpdateFunc option \<Rightarrow> ResourceUpdater \<Rightarrow> 'w state \<Rightarrow> (error option \<times> 'w state) res" where
  "call_UpdateFunc sys f resource st =
     (case f of
        None \<Rightarrow> Panicked
      | Some Fn_CommonCgroupUpdateFunc \<Rightarrow> CommonCgroupUpdateFunc sys resource st
      | Some Fn_CommonDefaultUpdateFunc \<Rightarrow> CommonDefaultUpdateFunc sys resource st)"

definition Update :: "'w sysutil_pkg \<Rightarrow> ResourceUpdater \<Rightarrow> 'w state \<Rightarrow> (error option \<times> 'w state) res" where
  "Update sys r st =
     (case dispatch st r of
        None \<Rightarrow> Panicked
      | Some (RecvCgroup u c) \<Rightarrow> call_UpdateFunc sys (cg_updateFunc c) (Some u) st
      | Some (RecvDefault u d) \<Rightarrow> call_UpdateFunc sys (df_updateFunc d) (Some u) st)"

subsection \<open>The merge update\<close>

definition MergeFuncUpdateCgroup ::
  "'w sysutil_pkg \<Rightarrow> ResourceUpdater \<Rightarrow> MergeConditionFunc \<Rightarrow> 'w state \<Rightarrow>
     ((ResourceUpdater \<times> error option) \<times> 'w state) res" where
  "MergeFuncUpdateCgroup sys resource mergeCondition st =
     (case assert_Cgroup st resource of
        None \<Rightarrow> Panicked
      | Some (u, c) \<Rightarrow>
          (let (isValid, msg) = Resource_IsValid (cg_file c) (cg_value c)
           in if \<not> isValid then Returned ((resource, Some (ParseNewValueFailed msg)), st)
              else
                (let st1 = emit (Call_CgroupFileRead (cg_parentDir c) (cg_file c)) st
                 in case CgroupFileRead sys (world st1) (cg_parentDir c) (cg_file c) of
                      Inl err \<Rightarrow> Returned ((resource, Some err), st1)
                    | Inr oldStr \<Rightarrow>
                        (case mergeCondition oldStr (cg_value c) of
                           (mergedValue, needMerge, Some err) \<Rightarrow>
                             Returned ((resource, Some err), st1)
                         | (mergedValue, needMerge, None) \<Rightarrow>
                             if \<not> needMerge then
                               (case Clone resource st1 of
                                  Panicked \<Rightarrow> Panicked
                                | Returned (merged, st2) \<Rightarrow>
                                    (case assert_Cgroup st2 merged of
                                       None \<Rightarrow> Panicked
                                     | Some (m, mc) \<Rightarrow>
                                         (case set_value m oldStr st2 of
                                            Panicked \<Rightarrow> Panicked
                                          | Returned st3 \<Rightarrow> Returned ((merged, None), st3))))
                             else
                               (case Path sys st1 resource of
                                  Panicked \<Rightarrow> Panicked
                                | Returned p \<Rightarrow>
                                    (case Value st1 resource of
                                       Panicked \<Rightarrow> Panicked
                                     | Returned v \<Rightarrow>
                                         (let st2 = emit (Audit ReasonUpdateCgroups p v) st1;
                                              st3 = emit (Call_CgroupFileWrite (cg_parentDir c)
                                                            (cg_file c) mergedValue) st2;
                                              (err, w) = CgroupFileWrite sys (world st3)
                                                           (cg_parentDir c) (cg_file c) mergedValue
                                          in Returned ((resource, err), st3\<lparr>world := w\<rparr>))))))))"

text \<open>A call through a \<^verbatim>\<open>MergeUpdateFunc\<close> value (the closure of lines 240 to 242).\<close>

definition call_MergeUpdateFunc ::
  "'w sysutil_pkg \<Rightarrow> MergeUpdateFunc \<Rightarrow> ResourceUpdater \<Rightarrow> 'w state \<Rightarrow>
     ((ResourceUpdater \<times> error option) \<times> 'w state) res" where
  "call_MergeUpdateFunc sys f resource st =
     (case f of Fn_MergeFuncUpdateCgroup mergeCondition \<Rightarrow>
        MergeFuncUpdateCgroup sys resource mergeCondition st)"

definition MergeUpdate ::
  "'w sysutil_pkg \<Rightarrow> ResourceUpdater \<Rightarrow> 'w state \<Rightarrow>
     ((ResourceUpdater \<times> error option) \<times> 'w state) res" where
  "MergeUpdate sys r st =
     (case dispatch st r of
        None \<Rightarrow> Panicked
      | Some (RecvCgroup u c) \<Rightarrow>
          (case cg_mergeUpdateFunc c of
             None \<Rightarrow>
               (case call_UpdateFunc sys (cg_updateFunc c) (Some u) st of
                  Panicked \<Rightarrow> Panicked
                | Returned (err, st') \<Rightarrow> Returned ((None, err), st'))
           | Some f \<Rightarrow> call_MergeUpdateFunc sys f (Some u) st)
      | Some (RecvDefault u d) \<Rightarrow>
          (case call_UpdateFunc sys (df_updateFunc d) (Some u) st of
             Panicked \<Rightarrow> Panicked
           | Returned (err, st') \<Rightarrow> Returned ((None, err), st')))"

subsection \<open>Constructors and the factory\<close>

definition NewCommonDefaultUpdater ::
  "string \<Rightarrow> string \<Rightarrow> string \<Rightarrow> 'w state \<Rightarrow> ((ResourceUpdater \<times> error option) \<times> 'w state) res" where
  "NewCommonDefaultUpdater file dir val st =
     (let (a, st') =
            alloc (DefaultObj
              \<lparr>df_value = val, df_dir = dir, df_file = file, df_lastUpdateTimestamp = 0,
               df_updateFunc = Some Fn_CommonDefaultUpdateFunc\<rparr>) st
      in Returned ((Some a, None), st'))"

type_synonym 'w NewResourceUpdaterFunc =
  "ResourceType \<Rightarrow> string \<Rightarrow> string \<Rightarrow> 'w state \<Rightarrow> ((ResourceUpdater \<times> error option) \<times> 'w state) res"

definition NewCommonCgroupUpdater :: "'w sysutil_pkg \<Rightarrow> 'w NewResourceUpdaterFunc" where
  "NewCommonCgroupUpdater sys resourceType parentDir val st =
     (case DefaultRegistry_Get sys (world st) resourceType of
        None \<Rightarrow> Returned ((None, Some (NotFoundInCgroupRegistry resourceType)), st)
      | Some r \<Rightarrow>
          (let (a, st') =
                 alloc (CgroupObj
                   \<lparr>cg_file = r, cg_parentDir = parentDir, cg_value = val,
                    cg_lastUpdateTimestamp = 0,
                    cg_updateFunc = Some Fn_CommonCgroupUpdateFunc,
                    cg_mergeUpdateFunc = None\<rparr>) st
           in Returned ((Some a, None), st')))"

definition NewMergeableCgroupUpdaterWithCondition ::
  "'w sysutil_pkg \<Rightarrow> ResourceType \<Rightarrow> string \<Rightarrow> string \<Rightarrow> MergeConditionFunc \<Rightarrow> 'w state \<Rightarrow>
     ((ResourceUpdater \<times> error option) \<times> 'w state) res" where
  "NewMergeableCgroupUpdaterWithCondition sys resourceType parentDir val mergeCondition st =
     (case DefaultRegistry_Get sys (world st) resourceType of
        None \<Rightarrow> Returned ((None, Some (NotFoundInCgroupRegistry resourceType)), st)
      | Some r \<Rightarrow>
          (let (a, st') =
                 alloc (CgroupObj
                   \<lparr>cg_file = r, cg_parentDir = parentDir, cg_value = val,
                    cg_lastUpdateTimestamp = 0,
                    cg_updateFunc = Some Fn_CommonCgroupUpdateFunc,
                    cg_mergeUpdateFunc = Some (Fn_MergeFuncUpdateCgroup mergeCondition)\<rparr>) st
           in Returned ((Some a, None), st')))"

definition NewMergeableCgroupUpdaterIfValueLarger :: "'w sysutil_pkg \<Rightarrow> 'w NewResourceUpdaterFunc" where
  "NewMergeableCgroupUpdaterIfValueLarger sys resourceType parentDir val st =
     NewMergeableCgroupUpdaterWithCondition sys resourceType parentDir val
       MergeConditionIfValueIsLarger st"

definition NewMergeableCgroupUpdaterIfCPUSetLooser ::
  "'w sysutil_pkg \<Rightarrow> cpuset_pkg \<Rightarrow> 'w NewResourceUpdaterFunc" where
  "NewMergeableCgroupUpdaterIfCPUSetLooser sys cp resourceType parentDir val st =
     NewMergeableCgroupUpdaterWithCondition sys resourceType parentDir val
       (MergeConditionIfCPUSetIsLooser cp) st"

text \<open>
  The factory: a map from resource type to constructor. The lock only serialises
  concurrent callers and has no part in a sequential run. A constructor is a Go func
  value, nil (\<open>None\<close>) included.
\<close>

record 'w CgroupUpdaterFactoryImpl =
  registry :: "ResourceType \<rightharpoonup> 'w NewResourceUpdaterFunc option"

definition NewCgroupUpdaterFactory :: "'w CgroupUpdaterFactoryImpl" where
  "NewCgroupUpdaterFactory = \<lparr>registry = Map.empty\<rparr>"

fun Register ::
  "'w NewResourceUpdaterFunc option \<Rightarrow> ResourceType list \<Rightarrow> 'w CgroupUpdaterFactoryImpl \<Rightarrow>
     'w CgroupUpdaterFactoryImpl" where
  "Register g [] f = f"
| "Register g (t # ts) f =
     (case registry f t of
        Some _ \<Rightarrow> Register g ts f
      | None \<Rightarrow> Register g ts (f\<lparr>registry := (registry f)(t \<mapsto> g)\<rparr>))"

definition New ::
  "'w CgroupUpdaterFactoryImpl \<Rightarrow> ResourceType \<Rightarrow> string \<Rightarrow> string \<Rightarrow> 'w state \<Rightarrow>
     ((ResourceUpdater \<times> error option) \<times> 'w state) res" where
  "New f resourceType parentDir val st =
     (case registry f resourceType of
        None \<Rightarrow> Returned ((None, Some (NotRegistered resourceType)), st)
      | Some g \<Rightarrow>
          (case g of
             None \<Rightarrow> Panicked
           | Some ctor \<Rightarrow> ctor resourceType parentDir val st))"

subsection \<open>Repeated merge updates\<close>

text \<open>
  Modelled from the spec: the caller that applies the merge update again and again (the
  external scheduler of the spec) is not among the sources. \<open>merge_all\<close> stands for it:
  it calls \<^verbatim>\<open>MergeFuncUpdateCgroup\<close> with one merge condition on a list of updaters in
  turn, and is \<open>None\<close> as soon as one call returns an error or panics.
\<close>

fun merge_all ::
  "'w sysutil_pkg \<Rightarrow> MergeConditionFunc \<Rightarrow> ResourceUpdater list \<Rightarrow> 'w state \<Rightarrow> 'w state option" where
  "merge_all sys mergeCondition [] st = Some st"
| "merge_all sys mergeCondition (r # rs) st =
     (case MergeFuncUpdateCgroup sys r mergeCondition st of
        Returned ((r', None), st') \<Rightarrow> merge_all sys mergeCondition rs st'
      | _ \<Rightarrow> None)"

subsection \<open>In-memory collaborators for concrete runs\<close>

text \<open>
  Modelled from the spec: an instance of the \<^verbatim>\<open>cpuset\<close> package for the CPU list
  syntax of the spec's examples (\<^verbatim>\<open>"0-3"\<close>, \<^verbatim>\<open>"4-5"\<close>, \<^verbatim>\<open>"0-5"\<close>): a list is
  empty or comma-separated items, an item is a decimal index or a range \<^verbatim>\<open>a-b\<close> with
  \<open>a \<le> b\<close>; the canonical string lists the maximal runs of consecutive indexes in
  increasing order. The general theorems below hold for every instance; this one runs
  them on concrete strings.
\<close>

definition digit_char :: "nat \<Rightarrow> char" where
  "digit_char d = char_of (of_char (CHR ''0'') + d)"

function Itoa :: "nat \<Rightarrow> string" where
  "Itoa n = (if n < 10 then [digit_char n] else Itoa (n div 10) @ [digit_char (n mod 10)])"
  by pat_completeness auto
termination
  by (relation "measure id") auto

declare Itoa.simps [simp del]

fun Atoi_loop :: "string \<Rightarrow> nat \<Rightarrow> nat option" where
  "Atoi_loop [] n = Some n"
| "Atoi_loop (c # cs) n =
     (case digit_of c of None \<Rightarrow> None | Some d \<Rightarrow> Atoi_loop cs (n * 10 + d))"

definition Atoi :: "string \<Rightarrow> nat option" where
  "Atoi s = (if s = [] then None else Atoi_loop s 0)"

fun Split :: "char \<Rightarrow> string \<Rightarrow> string list" where
  "Split sep [] = [[]]"
| "Split sep (c # cs) =
     (if c = sep then [] # Split sep cs
      else (case Split sep cs of [] \<Rightarrow> [[c]] | p # ps \<Rightarrow> (c # p) # ps))"

definition parse_range :: "string \<Rightarrow> string + CPUSet" where
  "parse_range r =
     (case dropWhile (\<lambda>c. c \<noteq> CHR ''-'') r of
        [] \<Rightarrow> (case Atoi r of None \<Rightarrow> Inl r | Some n \<Rightarrow> Inr {n})
      | _ # hi \<Rightarrow>
          (case Atoi (takeWhile (\<lambda>c. c \<noteq> CHR ''-'') r) of
             None \<Rightarrow> Inl r
           | Some a \<Rightarrow>
               (case Atoi hi of
                  None \<Rightarrow> Inl r
                | Some b \<Rightarrow> if a > b then Inl r else Inr {a..b})))"

fun parse_ranges :: "string list \<Rightarrow> string + CPUSet" where
  "parse_ranges [] = Inr {}"
| "parse_ranges (r # rs) =
     (case parse_range r of
        Inl e \<Rightarrow> Inl e
      | Inr s \<Rightarrow> (case parse_ranges rs of Inl e \<Rightarrow> Inl e | Inr t \<Rightarrow> Inr (s \<union> t)))"

definition cpulist_Parse :: "string \<Rightarrow> string + CPUSet" where
  "cpulist_Parse s = (if s = [] then Inr {} else parse_ranges (Split (CHR '','') s))"

fun to_ranges :: "nat list \<Rightarrow> (nat \<times> nat) list" where
  "to_ranges [] = []"
| "to_ranges (x # xs) =
     (case to_ranges xs of
        [] \<Rightarrow> [(x, x)]
      | (a, b) # rs \<Rightarrow> if a = Suc x then (x, b) # rs else (x, x) # (a, b) # rs)"

definition render_range :: "nat \<times> nat \<Rightarrow> string" where
  "render_range r =
     (if fst r = snd r then Itoa (fst r) else Itoa (fst r) @ ''-'' @ Itoa (snd r))"

fun Join :: "string list \<Rightarrow> string" where
  "Join [] = []"
| "Join [p] = p"
| "Join (p # q # ps) = p @ '','' @ Join (q # ps)"

definition cpulist_String :: "CPUSet \<Rightarrow> string" where
  "cpulist_String s = Join (map render_range (to_ranges (sorted_list_of_set s)))"

definition cpulist :: cpuset_pkg where
  "cpulist = \<lparr>cpuset_Parse = cpulist_Parse, cpuset_String = cpulist_String\<rparr>"

text \<open>
  \<^verbatim>\<open>filepath.Join\<close> of Go's standard library on Unix, for two elements: the elements
  from the first non-empty one on are joined with a slash and the result is cleaned;
  when both are empty the result is empty. \<^verbatim>\<open>filepath.Clean\<close> drops empty and
  \<^verbatim>\<open>.\<close> elements, lets a \<^verbatim>\<open>..\<close> element remove the element before it, drops
  it at the root, and keeps it at the start of a path that is not rooted; an empty
  result is \<^verbatim>\<open>.\<close>.
\<close>

fun Clean_elems :: "bool \<Rightarrow> string list \<Rightarrow> string list \<Rightarrow> string list" where
  "Clean_elems rooted out [] = rev out"
| "Clean_elems rooted out (e # es) =
     (if e = [] \<or> e = ''.'' then Clean_elems rooted out es
      else if e = ''..'' then
        (case out of
           [] \<Rightarrow> Clean_elems rooted (if rooted then [] else [''..'']) es
         | p # ps \<Rightarrow> Clean_elems rooted (if p = ''..'' then e # out else ps) es)
      else Clean_elems rooted (e # out) es)"

fun Join_slash :: "string list \<Rightarrow> string" where
  "Join_slash [] = []"
| "Join_slash [p] = p"
| "Join_slash (p # q # ps) = p @ ''/'' @ Join_slash (q # ps)"

definition filepath_Clean :: "string \<Rightarrow> string" where
  "filepath_Clean path =
     (let rooted = (path \<noteq> [] \<and> hd path = CHR ''/'');
          out = (if rooted then ''/'' else [])
                  @ Join_slash (Clean_elems rooted [] (Split (CHR ''/'') path))
      in if out = [] then ''.'' else out)"

definition unix_Join :: "string \<Rightarrow> string \<Rightarrow> string" where
  "unix_Join dir file =
     (if dir \<noteq> [] then filepath_Clean (dir @ ''/'' @ file)
      else if file \<noteq> [] then filepath_Clean file
      else [])"

text \<open>
  Modelled from the spec: an instance of the \<^verbatim>\<open>sysutil\<close> primitives over files held in
  memory, a map from path to content. A descriptor's file lies at
  \<^verbatim>\<open>parentDir/name\<close> and accepts every non-empty value; reading or writing a file that
  does not exist fails, a write to an existing file replaces its content, and
  write-if-different leaves an equal content alone. The registry knows three kinds.
\<close>

type_synonym files = "string \<rightharpoonup> string"

definition mem_resource :: "ResourceType \<Rightarrow> Resource" where
  "mem_resource name =
     \<lparr>Resource_ResourceType = name,
      Resource_Path = (\<lambda>parentDir. parentDir @ ''/'' @ name),
      Resource_IsValid = (\<lambda>v. if v = [] then (False, ''empty value'') else (True, []))\<rparr>"

definition mem_write :: "files \<Rightarrow> string \<Rightarrow> string \<Rightarrow> error option \<times> files" where
  "mem_write w path v =
     (case w path of
        None \<Rightarrow> (Some (SysError ''no such file''), w)
      | Some _ \<Rightarrow> (None, w(path \<mapsto> v)))"

definition mem_write_if_different :: "files \<Rightarrow> string \<Rightarrow> string \<Rightarrow> error option \<times> files" where
  "mem_write_if_different w path v =
     (case w path of
        None \<Rightarrow> (Some (SysError ''no such file''), w)
      | Some old \<Rightarrow> if old = v then (None, w) else (None, w(path \<mapsto> v)))"

definition mem_sysutil :: "files sysutil_pkg" where
  "mem_sysutil =
     \<lparr>CgroupFileRead = (\<lambda>w parentDir r.
        case w (Resource_Path r parentDir) of
          None \<Rightarrow> Inl (SysError ''no such file'')
        | Some s \<Rightarrow> Inr s),
      CgroupFileWrite = (\<lambda>w parentDir r v. mem_write w (Resource_Path r parentDir) v),
      CgroupFileWriteIfDifferent =
        (\<lambda>w parentDir r v. mem_write_if_different w (Resource_Path r parentDir) v),
      CommonFileWriteIfDifferent = mem_write_if_different,
      DefaultRegistry_Get = (\<lambda>w t.
        if t = ''memory.min'' \<or> t = ''cpuset.cpus'' \<or> t = ''cpu.shares''
        then Some (mem_resource t) else None),
      filepath_Join = unix_Join\<rparr>"

definition init_state :: "files \<Rightarrow> files state" where
  "init_state w = \<lparr>heap = [], world = w, trace = []\<rparr>"

subsection \<open>Example inputs\<close>

text \<open>
  Concrete inputs on which the theorems below are run. \<open>ex_state\<close> holds a common
  cgroup updater for \<^verbatim>\<open>cpu.shares\<close>, a default updater, and a guest updater that
  embeds the first. \<open>ex_merge_state\<close> holds merge-capable updaters for
  \<^verbatim>\<open>memory.min\<close> and \<^verbatim>\<open>cpuset.cpus\<close>, among them one with an empty value, one
  under a directory that has no such file and one with a value that is not a number.
  \<open>ex_calls\<close> is a list of registrations with a repeated kind and a nil constructor.
  \<open>ro_sysutil\<close> is the in-memory instance with an unconditional write that always
  fails.
\<close>

definition ex_files :: files where
  "ex_files =
     [''kubepods/memory.min'' \<mapsto> ''100'',
      ''kubepods/cpuset.cpus'' \<mapsto> ''0-3'',
      ''kubepods/cpu.shares'' \<mapsto> ''2'']"

definition ex_shares :: CgroupResourceUpdater where
  "ex_shares =
     \<lparr>cg_file = mem_resource ''cpu.shares'', cg_parentDir = ''kubepods'', cg_value = ''1024'',
      cg_lastUpdateTimestamp = 0, cg_updateFunc = Some Fn_CommonCgroupUpdateFunc,
      cg_mergeUpdateFunc = None\<rparr>"

definition ex_sysctl :: DefaultResourceUpdater where
  "ex_sysctl =
     \<lparr>df_value = ''1'', df_dir = ''/proc/sys/vm'', df_file = ''overcommit_memory'',
      df_lastUpdateTimestamp = 0, df_updateFunc = Some Fn_CommonDefaultUpdateFunc\<rparr>"

definition ex_guest :: GuestCgroupResourceUpdater where
  "ex_guest = \<lparr>guest_CgroupResourceUpdater = Some 0, guest_sandboxID = ''sandbox-1''\<rparr>"

definition ex_state :: "files state" where
  "ex_state =
     \<lparr>heap = [CgroupObj ex_shares, DefaultObj ex_sysctl, GuestObj ex_guest],
      world = ex_files, trace = []\<rparr>"

definition ex_calls :: "(files NewResourceUpdaterFunc option \<times> ResourceType list) list" where
  "ex_calls =
     [(Some (NewCommonCgroupUpdater mem_sysutil), [''cpu.shares'', ''memory.min'']),
      (Some (NewMergeableCgroupUpdaterIfValueLarger mem_sysutil), [''memory.min'']),
      (None, [''cpu.shares'', ''cpu.stat''])]"

definition ex_guest_nil :: GuestCgroupResourceUpdater where
  "ex_guest_nil = \<lparr>guest_CgroupResourceUpdater = None, guest_sandboxID = ''sandbox-2''\<rparr>"

definition ex_mergeable :: "ResourceType \<Rightarrow> string \<Rightarrow> string \<Rightarrow> MergeConditionFunc \<Rightarrow> CgroupResourceUpdater" where
  "ex_mergeable name parentDir v mergeCondition =
     \<lparr>cg_file = mem_resource name, cg_parentDir = parentDir, cg_value = v,
      cg_lastUpdateTimestamp = 0, cg_updateFunc = Some Fn_CommonCgroupUpdateFunc,
      cg_mergeUpdateFunc = Some (Fn_MergeFuncUpdateCgroup mergeCondition)\<rparr>"

definition ex_merge_state :: "files state" where
  "ex_merge_state =
     \<lparr>heap =
        [CgroupObj (ex_mergeable ''memory.min'' ''kubepods'' ''50'' MergeConditionIfValueIsLarger),
         CgroupObj (ex_mergeable ''memory.min'' ''kubepods'' ''200'' MergeConditionIfValueIsLarger),
         CgroupObj (ex_mergeable ''cpuset.cpus'' ''kubepods'' ''1-2''
                      (MergeConditionIfCPUSetIsLooser cpulist)),
         CgroupObj (ex_mergeable ''cpuset.cpus'' ''kubepods'' ''4-5''
                      (MergeConditionIfCPUSetIsLooser cpulist)),
         CgroupObj (ex_mergeable ''memory.min'' ''kubepods'' '''' MergeConditionIfValueIsLarger),
         CgroupObj (ex_mergeable ''memory.min'' ''besteffort'' ''50'' MergeConditionIfValueIsLarger),
         CgroupObj (ex_mergeable ''memory.min'' ''kubepods'' ''max'' MergeConditionIfValueIsLarger)],
      world = ex_files, trace = []\<rparr>"

definition ro_sysutil :: "files sysutil_pkg" where
  "ro_sysutil =
     mem_sysutil\<lparr>CgroupFileWrite :=
       (\<lambda>w parentDir r v. (Some (SysError ''read-only file system''), w))\<rparr>"

section \<open>Properties\<close>

subsection \<open>The merge conditions\<close>

lemmas ParseInt_eval = ParseInt_def ParseUint_def digit_of_def maxUint64_def

lemma ParseInt_int64: "ParseInt s = Inr v \<Longrightarrow> - (2 ^ 63) \<le> v \<and> v < 2 ^ 63"
  by (auto simp: ParseInt_def Let_def split: list.splits sum.splits NumError.splits if_splits)

text \<open>
  C4. \<^verbatim>\<open>MergeConditionIfValueIsLarger\<close> on any two strings: when the new value does not
  parse as a signed 64-bit integer the result carries the "new value is not int64"
  error, when the new value parses and the old one does not it carries the "old value
  is not int64" error; when both parse the resolved value is the new string, the
  needs-write flag is \<open>new > old\<close> on the parsed integers and the error is nil. In
  particular \<open>(old = "5", new = "10")\<close> gives \<open>("10", true, nil)\<close> and
  \<open>(old = "10", new = "5")\<close> gives needs-write false with a nil error. A value that
  parses lies in the signed 64-bit range.
\<close>

theorem C4_MergeConditionIfValueIsLarger:
  "(\<forall>e. ParseInt newValue = Inl e \<longrightarrow>
        MergeConditionIfValueIsLarger oldValue newValue
          = (newValue, False, Some (NewValueNotInt64 e)))
   \<and> (\<forall>v e. ParseInt newValue = Inr v \<longrightarrow> ParseInt oldValue = Inl e \<longrightarrow>
        MergeConditionIfValueIsLarger oldValue newValue
          = (newValue, False, Some (OldValueNotInt64 e)))
   \<and> (\<forall>v old. ParseInt newValue = Inr v \<longrightarrow> ParseInt oldValue = Inr old \<longrightarrow>
        MergeConditionIfValueIsLarger oldValue newValue = (newValue, v > old, None))
   \<and> MergeConditionIfValueIsLarger ''5'' ''10'' = (''10'', True, None)
   \<and> MergeConditionIfValueIsLarger ''10'' ''5'' = (''5'', False, None)
   \<and> (\<forall>v. ParseInt newValue = Inr v \<longrightarrow> - (2 ^ 63) \<le> v \<and> v < 2 ^ 63)"
proof -
  have "MergeConditionIfValueIsLarger ''5'' ''10'' = (''10'', True, None)"
    and "MergeConditionIfValueIsLarger ''10'' ''5'' = (''5'', False, None)"
    by (simp_all add: MergeConditionIfValueIsLarger_def ParseInt_eval)
  then show ?thesis
    using ParseInt_int64 [of newValue]
    by (simp add: MergeConditionIfValueIsLarger_def)
qed

theorem C4_MergeConditionIfValueIsLarger_witness:
  "ParseInt ''x'' = Inl ErrSyntax
   \<and> MergeConditionIfValueIsLarger ''10'' ''x'' = (''x'', False, Some (NewValueNotInt64 ErrSyntax))
   \<and> ParseInt ''10'' = Inr 10
   \<and> MergeConditionIfValueIsLarger ''x'' ''10'' = (''10'', False, Some (OldValueNotInt64 ErrSyntax))
   \<and> ParseInt ''-7'' = Inr (-7)
   \<and> MergeConditionIfValueIsLarger ''-7'' ''10'' = (''10'', True, None)
   \<and> MergeConditionIfValueIsLarger ''10'' ''-7'' = (''-7'', False, None)
   \<and> MergeConditionIfValueIsLarger ''10'' ''10'' = (''10'', False, None)
   \<and> ParseInt ''9223372036854775808'' = Inl ErrRange
   \<and> MergeConditionIfValueIsLarger ''10'' ''9223372036854775808''
       = (''9223372036854775808'', False, Some (NewValueNotInt64 ErrRange))
   \<and> ParseInt ''-9223372036854775808'' = Inr (- 9223372036854775808)
   \<and> MergeConditionIfValueIsLarger ''-9223372036854775808'' ''10'' = (''10'', True, None)"
proof -
  have x: "ParseInt ''x'' = Inl ErrSyntax"
    by (simp add: ParseInt_eval)
  have big: "ParseInt ''9223372036854775808'' = Inl ErrRange"
    by (simp add: ParseInt_eval)
  have small: "ParseInt ''-9223372036854775808'' = Inr (- 9223372036854775808)"
    by (simp add: ParseInt_eval)
  have ten: "ParseInt ''10'' = Inr 10"
    by (simp add: ParseInt_eval)
  have m7: "ParseInt ''-7'' = Inr (-7)"
    by (simp add: ParseInt_eval)
  note a = C4_MergeConditionIfValueIsLarger [of "''x''" "''10''"]
  note b = C4_MergeConditionIfValueIsLarger [of "''10''" "''x''"]
  note c = C4_MergeConditionIfValueIsLarger [of "''10''" "''-7''"]
  note d = C4_MergeConditionIfValueIsLarger [of "''-7''" "''10''"]
  note e = C4_MergeConditionIfValueIsLarger [of "''10''" "''10''"]
  from a x have 1:
    "MergeConditionIfValueIsLarger ''10'' ''x'' = (''x'', False, Some (NewValueNotInt64 ErrSyntax))"
    by simp
  from b x ten have 2:
    "MergeConditionIfValueIsLarger ''x'' ''10'' = (''10'', False, Some (OldValueNotInt64 ErrSyntax))"
    by simp
  from c m7 ten have 3:
    "MergeConditionIfValueIsLarger ''-7'' ''10'' = (''10'', (10::int) > -7, None)"
    by simp
  from d m7 ten have 4:
    "MergeConditionIfValueIsLarger ''10'' ''-7'' = (''-7'', (-7::int) > 10, None)"
    by simp
  from e ten have 5:
    "MergeConditionIfValueIsLarger ''10'' ''10'' = (''10'', (10::int) > 10, None)"
    by simp
  from C4_MergeConditionIfValueIsLarger [of "''9223372036854775808''" "''10''"] big have 6:
    "MergeConditionIfValueIsLarger ''10'' ''9223372036854775808''
       = (''9223372036854775808'', False, Some (NewValueNotInt64 ErrRange))"
    by simp
  from C4_MergeConditionIfValueIsLarger [of "''10''" "''-9223372036854775808''"] small ten have 7:
    "MergeConditionIfValueIsLarger ''-9223372036854775808'' ''10''
       = (''10'', (10::int) > - 9223372036854775808, None)"
    by simp
  from x ten m7 big small 1 2 3 4 5 6 7 show ?thesis by simp
qed

lemma cpulist_Parse_0_3: "cpuset_Parse cpulist ''0-3'' = Inr {0..3}"
  by (simp add: cpulist_def cpulist_Parse_def parse_range_def Atoi_def digit_of_def)

lemma cpulist_Parse_1_2: "cpuset_Parse cpulist ''1-2'' = Inr {1..2}"
  by (simp add: cpulist_def cpulist_Parse_def parse_range_def Atoi_def digit_of_def)

lemma cpulist_Parse_4_5: "cpuset_Parse cpulist ''4-5'' = Inr {4..5}"
  by (simp add: cpulist_def cpulist_Parse_def parse_range_def Atoi_def digit_of_def)

lemma cpulist_Parse_a: "cpuset_Parse cpulist ''a'' = Inl ''a''"
  by (simp add: cpulist_def cpulist_Parse_def parse_range_def Atoi_def digit_of_def)

lemma cpulist_String_0_5: "cpuset_String cpulist ({0..3} \<union> {4..5}) = ''0-5''"
  by code_simp

text \<open>
  C5. \<^verbatim>\<open>MergeConditionIfCPUSetIsLooser\<close> on any two strings, for every parser and
  renderer of CPU sets: when the new value does not parse the result carries the "new
  value is not valid cpuset" error, when the new value parses and the old one does not
  it carries the "old value is not valid cpuset" error; when both parse and the new set
  is a subset of the old one, needs-write is false and the error nil; otherwise the
  result is the canonical string of the union of the two sets, needs-write true and a
  nil error.
\<close>

theorem C5_MergeConditionIfCPUSetIsLooser:
  "(\<forall>e. cpuset_Parse cp newValue = Inl e \<longrightarrow>
        MergeConditionIfCPUSetIsLooser cp oldValue newValue
          = (newValue, False, Some (NewValueNotValidCPUSet e)))
   \<and> (\<forall>v e. cpuset_Parse cp newValue = Inr v \<longrightarrow> cpuset_Parse cp oldValue = Inl e \<longrightarrow>
        MergeConditionIfCPUSetIsLooser cp oldValue newValue
          = (newValue, False, Some (OldValueNotValidCPUSet e)))
   \<and> (\<forall>v old. cpuset_Parse cp newValue = Inr v \<longrightarrow> cpuset_Parse cp oldValue = Inr old \<longrightarrow>
        v \<subseteq> old \<longrightarrow>
        MergeConditionIfCPUSetIsLooser cp oldValue newValue = (newValue, False, None))
   \<and> (\<forall>v old. cpuset_Parse cp newValue = Inr v \<longrightarrow> cpuset_Parse cp oldValue = Inr old \<longrightarrow>
        \<not> v \<subseteq> old \<longrightarrow>
        MergeConditionIfCPUSetIsLooser cp oldValue newValue
          = (cpuset_String cp (old \<union> v), True, None))"
  by (simp add: MergeConditionIfCPUSetIsLooser_def IsSubsetOf_def Union_cpuset_def Un_commute)

theorem C5_MergeConditionIfCPUSetIsLooser_witness:
  "cpuset_Parse cpulist ''0-3'' = Inr {0..3}
   \<and> cpuset_Parse cpulist ''1-2'' = Inr {1..2}
   \<and> cpuset_Parse cpulist ''4-5'' = Inr {4..5}
   \<and> cpuset_Parse cpulist ''a'' = Inl ''a''
   \<and> MergeConditionIfCPUSetIsLooser cpulist ''0-3'' ''a''
        = (''a'', False, Some (NewValueNotValidCPUSet ''a''))
   \<and> MergeConditionIfCPUSetIsLooser cpulist ''a'' ''0-3''
        = (''0-3'', False, Some (OldValueNotValidCPUSet ''a''))
   \<and> MergeConditionIfCPUSetIsLooser cpulist ''0-3'' ''1-2'' = (''1-2'', False, None)
   \<and> MergeConditionIfCPUSetIsLooser cpulist ''0-3'' ''4-5'' = (''0-5'', True, None)"
proof -
  note a = C5_MergeConditionIfCPUSetIsLooser [of cpulist "''a''" "''0-3''"]
  note b = C5_MergeConditionIfCPUSetIsLooser [of cpulist "''0-3''" "''a''"]
  note c = C5_MergeConditionIfCPUSetIsLooser [of cpulist "''1-2''" "''0-3''"]
  note d = C5_MergeConditionIfCPUSetIsLooser [of cpulist "''4-5''" "''0-3''"]
  have sub: "{1..2} \<subseteq> {0..(3::nat)}" and nsub: "\<not> {4..5} \<subseteq> {0..(3::nat)}"
    by simp_all
  from a cpulist_Parse_a have 1:
    "MergeConditionIfCPUSetIsLooser cpulist ''0-3'' ''a''
       = (''a'', False, Some (NewValueNotValidCPUSet ''a''))"
    by simp
  from b cpulist_Parse_a cpulist_Parse_0_3 have 2:
    "MergeConditionIfCPUSetIsLooser cpulist ''a'' ''0-3''
       = (''0-3'', False, Some (OldValueNotValidCPUSet ''a''))"
    by simp
  from c cpulist_Parse_0_3 cpulist_Parse_1_2 sub have 3:
    "MergeConditionIfCPUSetIsLooser cpulist ''0-3'' ''1-2'' = (''1-2'', False, None)"
    by simp
  from d cpulist_Parse_0_3 cpulist_Parse_4_5 nsub have 4:
    "MergeConditionIfCPUSetIsLooser cpulist ''0-3'' ''4-5''
       = (cpuset_String cpulist ({0..3} \<union> {4..5}), True, None)"
    by simp
  from 1 2 3 4 cpulist_Parse_0_3 cpulist_Parse_1_2 cpulist_Parse_4_5 cpulist_Parse_a
    cpulist_String_0_5
  show ?thesis by simp
qed

subsection \<open>The heap\<close>

lemma lookup_append:
  "lookup (st\<lparr>heap := heap st @ [x]\<rparr>) a =
     (if a = length (heap st) then Some x else lookup st a)"
  by (simp add: lookup_def nth_append)

lemma lookup_store:
  "lookup (store u x st) a = (if a = u \<and> u < length (heap st) then Some x else lookup st a)"
  by (simp add: lookup_def store_def)

lemma lookup_emit: "lookup (emit e st) a = lookup st a"
  by (simp add: lookup_def emit_def)

lemma lookup_Some_less: "lookup st a = Some x \<Longrightarrow> a < length (heap st)"
  by (simp add: lookup_def split: if_splits)

lemma lookup_fresh: "lookup st (length (heap st)) = None"
  by (simp add: lookup_def)

lemma state_emit:
  "world (emit e st) = world st"
  "heap (emit e st) = heap st"
  "trace (emit e st) = trace st @ [e]"
  by (simp_all add: emit_def)

lemma dispatch_Cgroup_iff:
  "dispatch st r = Some (RecvCgroup u c) \<longleftrightarrow>
     lookup st u = Some (CgroupObj c) \<and>
     (r = Some u \<or>
      (\<exists>a g. r = Some a \<and> lookup st a = Some (GuestObj g) \<and>
             guest_CgroupResourceUpdater g = Some u))"
  by (auto simp: dispatch_def split: option.splits obj.splits)

lemma dispatch_Default_iff:
  "dispatch st r = Some (RecvDefault u d) \<longleftrightarrow> r = Some u \<and> lookup st u = Some (DefaultObj d)"
  by (auto simp: dispatch_def split: option.splits obj.splits)

lemma dispatch_emit: "dispatch (emit e st) r = dispatch st r"
  by (simp add: dispatch_def lookup_emit cong: option.case_cong obj.case_cong)

lemma dispatch_append:
  "dispatch st r = Some recv \<Longrightarrow> dispatch (st\<lparr>heap := heap st @ [x]\<rparr>) r = Some recv"
  by (cases recv)
     (auto simp: dispatch_Cgroup_iff dispatch_Default_iff lookup_append lookup_fresh
           dest: lookup_Some_less)

lemma dispatch_store_other:
  assumes "dispatch st r = Some recv" and "r \<noteq> Some m"
    and "\<forall>c. recv \<noteq> RecvCgroup m c" and "\<forall>d. recv \<noteq> RecvDefault m d"
  shows "dispatch (store m x st) r = Some recv"
  using assms
  by (cases recv) (auto simp: dispatch_Cgroup_iff dispatch_Default_iff lookup_store)

lemma dispatch_store_new_Cgroup:
  "lookup st m = Some x0 \<Longrightarrow>
   dispatch (store m (CgroupObj c') st) (Some m) = Some (RecvCgroup m c')"
  by (auto simp: dispatch_Cgroup_iff lookup_store dest: lookup_Some_less)

lemma dispatch_store_new_Default:
  "lookup st m = Some x0 \<Longrightarrow>
   dispatch (store m (DefaultObj d') st) (Some m) = Some (RecvDefault m d')"
  by (auto simp: dispatch_Default_iff lookup_store dest: lookup_Some_less)

lemma dispatch_store_target_Cgroup:
  "dispatch st r = Some (RecvCgroup u c) \<Longrightarrow>
   dispatch (store u (CgroupObj c') st) r = Some (RecvCgroup u c')"
  by (auto simp: dispatch_Cgroup_iff lookup_store dest: lookup_Some_less)

lemma dispatch_store_target_Default:
  "dispatch st r = Some (RecvDefault u d) \<Longrightarrow>
   dispatch (store u (DefaultObj d') st) r = Some (RecvDefault u d')"
  by (auto simp: dispatch_Default_iff lookup_store dest: lookup_Some_less)

lemma assert_Cgroup_iff:
  "assert_Cgroup st r = Some (u, c) \<longleftrightarrow> r = Some u \<and> lookup st u = Some (CgroupObj c)"
  by (auto simp: assert_Cgroup_def split: option.splits obj.splits)

lemma assert_Cgroup_dispatch:
  "assert_Cgroup st r = Some (u, c) \<Longrightarrow> dispatch st r = Some (RecvCgroup u c)"
  by (simp add: assert_Cgroup_iff dispatch_Cgroup_iff)

lemma assert_Cgroup_emit: "assert_Cgroup (emit e st) r = assert_Cgroup st r"
  by (simp add: assert_Cgroup_def lookup_emit cong: option.case_cong)

lemma getters_Cgroup:
  "dispatch st r = Some (RecvCgroup u c) \<Longrightarrow>
   Value st r = Returned (cg_value c) \<and>
   GetLastUpdateTimestamp st r = Returned (cg_lastUpdateTimestamp c)"
  by (simp add: Value_def GetLastUpdateTimestamp_def)

lemma getters_Default:
  "dispatch st r = Some (RecvDefault u d) \<Longrightarrow>
   Value st r = Returned (df_value d) \<and>
   GetLastUpdateTimestamp st r = Returned (df_lastUpdateTimestamp d)"
  by (simp add: Value_def GetLastUpdateTimestamp_def)

subsection \<open>Evaluating the examples\<close>

lemmas heap_eval = dispatch_def lookup_def alloc_def store_def emit_def assert_Cgroup_def
  assert_Default_def

lemma unix_Join_eval:
  "unix_Join ''a'' ''b'' = ''a/b''"
  "unix_Join ''a/'' ''b'' = ''a/b''"
  "unix_Join ''a'' [] = ''a''"
  "unix_Join [] ''b'' = ''b''"
  "unix_Join [] [] = []"
  "unix_Join ''/'' ''a'' = ''/a''"
  "unix_Join ''a//b/./c'' ''../d'' = ''a/b/d''"
  "unix_Join ''/a'' ''../../b'' = ''/b''"
  "unix_Join ''a'' ''../../b'' = ''../b''"
  "unix_Join ''a'' ''..'' = ''.''"
  "unix_Join ''/proc/sys/vm'' ''overcommit_memory'' = ''/proc/sys/vm/overcommit_memory''"
  by (simp_all add: unix_Join_def filepath_Clean_def Let_def)

lemmas mem_eval = mem_sysutil_def mem_resource_def mem_write_def mem_write_if_different_def
  init_state_def unix_Join_eval

lemmas method_eval = ResourceType_of_def Path_def Value_def GetLastUpdateTimestamp_def
  UpdateLastUpdateTimestamp_def Clone_def set_value_def CommonCgroupUpdateFunc_def
  CommonDefaultUpdateFunc_def call_UpdateFunc_def Update_def MergeFuncUpdateCgroup_def
  call_MergeUpdateFunc_def MergeUpdate_def ReasonUpdateCgroups_def ReasonUpdateSystemConfig_def

lemmas ex_eval = ex_state_def ex_shares_def ex_sysctl_def ex_guest_def ex_files_def

lemma ex_built:
  "NewCommonCgroupUpdater mem_sysutil ''cpu.shares'' ''kubepods'' ''1024'' (init_state ex_files)
     = Returned ((Some 0, None), \<lparr>heap = [CgroupObj ex_shares], world = ex_files, trace = []\<rparr>)"
  by (simp add: NewCommonCgroupUpdater_def heap_eval mem_eval ex_shares_def)

lemma ex_built2:
  "NewCommonDefaultUpdater ''overcommit_memory'' ''/proc/sys/vm'' ''1''
      \<lparr>heap = [CgroupObj ex_shares], world = ex_files, trace = []\<rparr>
     = Returned ((Some 1, None),
         \<lparr>heap = [CgroupObj ex_shares, DefaultObj ex_sysctl], world = ex_files, trace = []\<rparr>)"
  by (simp add: NewCommonDefaultUpdater_def heap_eval mem_eval ex_sysctl_def)

lemma ex_dispatch:
  "dispatch ex_state (Some 0) = Some (RecvCgroup 0 ex_shares)"
  "dispatch ex_state (Some 1) = Some (RecvDefault 1 ex_sysctl)"
  "dispatch ex_state (Some 2) = Some (RecvCgroup 0 ex_shares)"
  by (simp_all add: heap_eval ex_state_def ex_guest_def)

lemma ex_mergeable_built:
  "NewMergeableCgroupUpdaterIfValueLarger mem_sysutil ''memory.min'' ''kubepods'' ''50''
       (init_state ex_files)
     = Returned ((Some 0, None),
         \<lparr>heap = [CgroupObj (ex_mergeable ''memory.min'' ''kubepods'' ''50''
                              MergeConditionIfValueIsLarger)],
          world = ex_files, trace = []\<rparr>)"
  by (simp add: NewMergeableCgroupUpdaterIfValueLarger_def
        NewMergeableCgroupUpdaterWithCondition_def alloc_def mem_eval ex_mergeable_def)

lemma ex_assert:
  "assert_Cgroup ex_merge_state (Some 0)
     = Some (0, ex_mergeable ''memory.min'' ''kubepods'' ''50'' MergeConditionIfValueIsLarger)"
  "assert_Cgroup ex_merge_state (Some 1)
     = Some (1, ex_mergeable ''memory.min'' ''kubepods'' ''200'' MergeConditionIfValueIsLarger)"
  "assert_Cgroup ex_merge_state (Some 2)
     = Some (2, ex_mergeable ''cpuset.cpus'' ''kubepods'' ''1-2''
                  (MergeConditionIfCPUSetIsLooser cpulist))"
  "assert_Cgroup ex_merge_state (Some 3)
     = Some (3, ex_mergeable ''cpuset.cpus'' ''kubepods'' ''4-5''
                  (MergeConditionIfCPUSetIsLooser cpulist))"
  "assert_Cgroup ex_merge_state (Some 4)
     = Some (4, ex_mergeable ''memory.min'' ''kubepods'' '''' MergeConditionIfValueIsLarger)"
  "assert_Cgroup ex_merge_state (Some 5)
     = Some (5, ex_mergeable ''memory.min'' ''besteffort'' ''50'' MergeConditionIfValueIsLarger)"
  "assert_Cgroup ex_merge_state (Some 6)
     = Some (6, ex_mergeable ''memory.min'' ''kubepods'' ''max'' MergeConditionIfValueIsLarger)"
  by (simp_all add: assert_Cgroup_def lookup_def ex_merge_state_def)

lemma ex_fields:
  "cg_file (ex_mergeable name parentDir v mc) = mem_resource name"
  "cg_parentDir (ex_mergeable name parentDir v mc) = parentDir"
  "cg_value (ex_mergeable name parentDir v mc) = v"
  "cg_mergeUpdateFunc (ex_mergeable name parentDir v mc) = Some (Fn_MergeFuncUpdateCgroup mc)"
  by (simp_all add: ex_mergeable_def)

lemma ex_valid:
  "Resource_IsValid (mem_resource name) v = (if v = [] then (False, ''empty value'') else (True, []))"
  "Resource_Path (mem_resource name) parentDir = parentDir @ ''/'' @ name"
  by (simp_all add: mem_resource_def)

lemma ex_world: "world ex_merge_state = ex_files" "trace ex_merge_state = []"
  by (simp_all add: ex_merge_state_def)

lemma ex_read:
  "CgroupFileRead mem_sysutil ex_files ''kubepods'' (mem_resource ''memory.min'') = Inr ''100''"
  "CgroupFileRead mem_sysutil ex_files ''kubepods'' (mem_resource ''cpuset.cpus'') = Inr ''0-3''"
  "CgroupFileRead mem_sysutil ex_files ''besteffort'' (mem_resource ''memory.min'')
     = Inl (SysError ''no such file'')"
  "CgroupFileRead ro_sysutil ex_files ''kubepods'' (mem_resource ''memory.min'') = Inr ''100''"
  by (simp_all add: ro_sysutil_def mem_sysutil_def mem_resource_def ex_files_def)

lemma ex_write:
  "CgroupFileWrite mem_sysutil ex_files ''kubepods'' (mem_resource ''memory.min'') ''200''
     = (None, ex_files(''kubepods/memory.min'' \<mapsto> ''200''))"
  "CgroupFileWrite mem_sysutil ex_files ''kubepods'' (mem_resource ''cpuset.cpus'') ''0-5''
     = (None, ex_files(''kubepods/cpuset.cpus'' \<mapsto> ''0-5''))"
  "CgroupFileWrite ro_sysutil ex_files ''kubepods'' (mem_resource ''memory.min'') ''200''
     = (Some (SysError ''read-only file system''), ex_files)"
  by (simp_all add: ro_sysutil_def mem_sysutil_def mem_resource_def mem_write_def ex_files_def)

lemma ex_policy:
  "MergeConditionIfValueIsLarger ''100'' ''50'' = (''50'', False, None)"
  "MergeConditionIfValueIsLarger ''100'' ''200'' = (''200'', True, None)"
  "MergeConditionIfValueIsLarger ''100'' ''max'' = (''max'', False, Some (NewValueNotInt64 ErrSyntax))"
  "MergeConditionIfCPUSetIsLooser cpulist ''0-3'' ''1-2'' = (''1-2'', False, None)"
  "MergeConditionIfCPUSetIsLooser cpulist ''0-3'' ''4-5'' = (''0-5'', True, None)"
  by (simp_all add: MergeConditionIfValueIsLarger_def ParseInt_eval
        MergeConditionIfCPUSetIsLooser_def cpulist_Parse_0_3 cpulist_Parse_1_2 cpulist_Parse_4_5
        IsSubsetOf_def Union_cpuset_def cpulist_String_0_5 Un_commute)

lemmas ex_simps = ex_fields ex_valid ex_world ex_read ex_write ex_policy

subsection \<open>The factory\<close>

lemma registry_Register:
  "registry (Register g ts f) t =
     (case registry f t of Some h \<Rightarrow> Some h | None \<Rightarrow> if t \<in> set ts then Some g else None)"
  by (induction ts arbitrary: f) (auto split: option.splits)

lemma registry_Register_all:
  "registry (fold (\<lambda>(g, ts). Register g ts) calls f) t =
     (case registry f t of
        Some h \<Rightarrow> Some h
      | None \<Rightarrow> map_option fst (find (\<lambda>(g, ts). t \<in> set ts) calls))"
proof (induction calls arbitrary: f)
  case Nil
  then show ?case by (simp split: option.splits)
next
  case (Cons call calls)
  obtain g ts where call: "call = (g, ts)" by (cases call)
  show ?case
    by (simp add: Cons.IH call registry_Register split: option.splits)
qed

text \<open>
  C7. After any sequence of \<^verbatim>\<open>Register\<close> calls on a new factory,
  \<^verbatim>\<open>New(kind, parentDir, value)\<close> returns the "not registered" error (and no updater,
  in the unchanged state) when no call listed the kind, and otherwise calls the
  constructor of the first call that listed it (a nil constructor panics when called).
  A later \<^verbatim>\<open>Register\<close> of a kind that is already present leaves the entry as it is,
  and \<^verbatim>\<open>New\<close> for that kind behaves as before: the later constructor is never used.
\<close>

theorem C7_factory_first_registration_wins:
  "New (fold (\<lambda>(g, ts). Register g ts) calls NewCgroupUpdaterFactory) kind parentDir val st =
     (case find (\<lambda>(g, ts). kind \<in> set ts) calls of
        None \<Rightarrow> Returned ((None, Some (NotRegistered kind)), st)
      | Some (g, ts) \<Rightarrow>
          (case g of None \<Rightarrow> Panicked | Some ctor \<Rightarrow> ctor kind parentDir val st))
   \<and> (\<forall>h. registry f kind = Some h \<longrightarrow> registry (Register g2 kinds f) kind = Some h)
   \<and> (\<forall>h. registry f kind = Some h \<longrightarrow> New (Register g2 kinds f) kind parentDir val st = New f kind parentDir val st)"
  by (simp add: New_def registry_Register_all registry_Register NewCgroupUpdaterFactory_def
        split: option.splits)

theorem C7_factory_first_registration_wins_witness:
  "New (fold (\<lambda>(g, ts). Register g ts) ex_calls NewCgroupUpdaterFactory)
       ''memory.min'' ''kubepods'' ''50'' (init_state ex_files)
     = NewCommonCgroupUpdater mem_sysutil ''memory.min'' ''kubepods'' ''50'' (init_state ex_files)
   \<and> New (fold (\<lambda>(g, ts). Register g ts) ex_calls NewCgroupUpdaterFactory)
       ''cpuset.cpus'' ''kubepods'' ''0-1'' (init_state ex_files)
     = Returned ((None, Some (NotRegistered ''cpuset.cpus'')), init_state ex_files)
   \<and> New (fold (\<lambda>(g, ts). Register g ts) ex_calls NewCgroupUpdaterFactory)
       ''cpu.stat'' ''kubepods'' ''0'' (init_state ex_files)
     = Panicked
   \<and> registry (Register (Some (NewCommonCgroupUpdater mem_sysutil)) [''cpu.shares'']
         (NewCgroupUpdaterFactory :: files CgroupUpdaterFactoryImpl)) ''cpu.shares''
     = Some (Some (NewCommonCgroupUpdater mem_sysutil))
   \<and> registry (Register None [''cpu.shares'']
        (Register (Some (NewCommonCgroupUpdater mem_sysutil)) [''cpu.shares'']
           NewCgroupUpdaterFactory)) ''cpu.shares''
     = Some (Some (NewCommonCgroupUpdater mem_sysutil))
   \<and> New (Register None [''cpu.shares'']
        (Register (Some (NewCommonCgroupUpdater mem_sysutil)) [''cpu.shares'']
           NewCgroupUpdaterFactory)) ''cpu.shares'' ''kubepods'' ''1024'' (init_state ex_files)
     = Returned ((Some 0, None), \<lparr>heap = [CgroupObj ex_shares], world = ex_files, trace = []\<rparr>)"
proof -
  let ?f = "Register (Some (NewCommonCgroupUpdater mem_sysutil)) [''cpu.shares'']
              (NewCgroupUpdaterFactory :: files CgroupUpdaterFactoryImpl)"
  have f: "registry ?f ''cpu.shares'' = Some (Some (NewCommonCgroupUpdater mem_sysutil))"
    by (simp add: NewCgroupUpdaterFactory_def)
  have n: "New ?f ''cpu.shares'' ''kubepods'' ''1024'' (init_state ex_files)
             = Returned ((Some 0, None), \<lparr>heap = [CgroupObj ex_shares], world = ex_files, trace = []\<rparr>)"
    by (simp add: New_def NewCgroupUpdaterFactory_def ex_built)
  note a = C7_factory_first_registration_wins
    [of ex_calls "''memory.min''" "''kubepods''" "''50''" "init_state ex_files"
        ?f None "[''cpu.shares'']"]
  note b = C7_factory_first_registration_wins
    [of ex_calls "''cpuset.cpus''" "''kubepods''" "''0-1''" "init_state ex_files"
        ?f None "[''cpu.shares'']"]
  note c = C7_factory_first_registration_wins
    [of ex_calls "''cpu.stat''" "''kubepods''" "''0''" "init_state ex_files"
        ?f None "[''cpu.shares'']"]
  note d = C7_factory_first_registration_wins
    [of ex_calls "''cpu.shares''" "''kubepods''" "''1024''" "init_state ex_files"
        ?f None "[''cpu.shares'']"]
  from a have 1: "New (fold (\<lambda>(g, ts). Register g ts) ex_calls NewCgroupUpdaterFactory)
       ''memory.min'' ''kubepods'' ''50'' (init_state ex_files)
     = NewCommonCgroupUpdater mem_sysutil ''memory.min'' ''kubepods'' ''50'' (init_state ex_files)"
    by (simp add: ex_calls_def)
  from b have 2: "New (fold (\<lambda>(g, ts). Register g ts) ex_calls NewCgroupUpdaterFactory)
       ''cpuset.cpus'' ''kubepods'' ''0-1'' (init_state ex_files)
     = Returned ((None, Some (NotRegistered ''cpuset.cpus'')), init_state ex_files)"
    by (simp add: ex_calls_def)
  from c have 3: "New (fold (\<lambda>(g, ts). Register g ts) ex_calls NewCgroupUpdaterFactory)
       ''cpu.stat'' ''kubepods'' ''0'' (init_state ex_files) = Panicked"
    by (simp add: ex_calls_def)
  from d f have 4: "registry (Register None [''cpu.shares''] ?f) ''cpu.shares''
       = Some (Some (NewCommonCgroupUpdater mem_sysutil))"
    by simp
  from d f n have 5: "New (Register None [''cpu.shares''] ?f) ''cpu.shares'' ''kubepods'' ''1024''
       (init_state ex_files)
     = Returned ((Some 0, None), \<lparr>heap = [CgroupObj ex_shares], world = ex_files, trace = []\<rparr>)"
    by simp
  from 1 2 3 4 5 f show ?thesis by simp
qed

subsection \<open>Clone\<close>

lemma Clone_Cgroup:
  "dispatch st r = Some (RecvCgroup u c) \<Longrightarrow>
   Clone r st = Returned (Some (length (heap st)), st\<lparr>heap := heap st @ [CgroupObj c]\<rparr>)"
  by (simp add: Clone_def alloc_def)

lemma Clone_Default:
  "dispatch st r = Some (RecvDefault u d) \<Longrightarrow>
   Clone r st = Returned (Some (length (heap st)), st\<lparr>heap := heap st @ [DefaultObj d]\<rparr>)"
  by (simp add: Clone_def alloc_def)

lemma Clone_independent_Cgroup:
  assumes r: "dispatch st r = Some (RecvCgroup u c)"
  defines "m \<equiv> length (heap st)"
  defines "st' \<equiv> st\<lparr>heap := heap st @ [CgroupObj c]\<rparr>"
  shows "Clone r st = Returned (Some m, st')"
    and "lookup st m = None"
    and "lookup st' m = Some (CgroupObj c)"
    and "\<exists>st2. UpdateLastUpdateTimestamp (Some m) t st' = Returned st2
            \<and> GetLastUpdateTimestamp st2 (Some m) = Returned t
            \<and> Value st2 r = Value st r
            \<and> GetLastUpdateTimestamp st2 r = GetLastUpdateTimestamp st r"
    and "\<exists>st2. set_value m v st' = Returned st2
            \<and> Value st2 (Some m) = Returned v
            \<and> Value st2 r = Value st r
            \<and> GetLastUpdateTimestamp st2 r = GetLastUpdateTimestamp st r"
    and "\<exists>st2. UpdateLastUpdateTimestamp r t st' = Returned st2
            \<and> GetLastUpdateTimestamp st2 r = Returned t
            \<and> Value st2 (Some m) = Value st r
            \<and> GetLastUpdateTimestamp st2 (Some m) = GetLastUpdateTimestamp st r"
    and "\<exists>st2. set_value u v st' = Returned st2
            \<and> Value st2 r = Returned v
            \<and> Value st2 (Some m) = Value st r
            \<and> GetLastUpdateTimestamp st2 (Some m) = GetLastUpdateTimestamp st r"
proof -
  have u: "lookup st u = Some (CgroupObj c)" and um: "u \<noteq> m" and rm: "r \<noteq> Some m"
    using r by (auto simp: dispatch_Cgroup_iff m_def dest: lookup_Some_less)
  have r': "dispatch st' r = Some (RecvCgroup u c)"
    unfolding st'_def by (rule dispatch_append [OF r])
  have lm: "lookup st' m = Some (CgroupObj c)"
    by (simp add: st'_def m_def lookup_append)
  have lu: "lookup st' u = Some (CgroupObj c)"
    using r' by (simp add: dispatch_Cgroup_iff)
  have m': "dispatch st' (Some m) = Some (RecvCgroup m c)"
    using lm by (simp add: dispatch_Cgroup_iff)
  note g = getters_Cgroup [OF r]
  show "Clone r st = Returned (Some m, st')"
    unfolding m_def st'_def by (rule Clone_Cgroup [OF r])
  show "lookup st m = None"
    by (simp add: m_def lookup_fresh)
  show "lookup st' m = Some (CgroupObj c)"
    by (rule lm)
  show "\<exists>st2. UpdateLastUpdateTimestamp (Some m) t st' = Returned st2
            \<and> GetLastUpdateTimestamp st2 (Some m) = Returned t
            \<and> Value st2 r = Value st r
            \<and> GetLastUpdateTimestamp st2 r = GetLastUpdateTimestamp st r"
  proof -
    let ?x = "CgroupObj (c\<lparr>cg_lastUpdateTimestamp := t\<rparr>)"
    have 1: "UpdateLastUpdateTimestamp (Some m) t st' = Returned (store m ?x st')"
      by (simp add: UpdateLastUpdateTimestamp_def m')
    have 2: "dispatch (store m ?x st') (Some m)
               = Some (RecvCgroup m (c\<lparr>cg_lastUpdateTimestamp := t\<rparr>))"
      by (rule dispatch_store_new_Cgroup [OF lm])
    have 3: "dispatch (store m ?x st') r = Some (RecvCgroup u c)"
      using um rm by (intro dispatch_store_other [OF r']) auto
    show ?thesis
      using 1 getters_Cgroup [OF 2] getters_Cgroup [OF 3] g by simp
  qed
  show "\<exists>st2. set_value m v st' = Returned st2
            \<and> Value st2 (Some m) = Returned v
            \<and> Value st2 r = Value st r
            \<and> GetLastUpdateTimestamp st2 r = GetLastUpdateTimestamp st r"
  proof -
    let ?x = "CgroupObj (c\<lparr>cg_value := v\<rparr>)"
    have 1: "set_value m v st' = Returned (store m ?x st')"
      by (simp add: set_value_def lm)
    have 2: "dispatch (store m ?x st') (Some m) = Some (RecvCgroup m (c\<lparr>cg_value := v\<rparr>))"
      by (rule dispatch_store_new_Cgroup [OF lm])
    have 3: "dispatch (store m ?x st') r = Some (RecvCgroup u c)"
      using um rm by (intro dispatch_store_other [OF r']) auto
    show ?thesis
      using 1 getters_Cgroup [OF 2] getters_Cgroup [OF 3] g by simp
  qed
  show "\<exists>st2. UpdateLastUpdateTimestamp r t st' = Returned st2
            \<and> GetLastUpdateTimestamp st2 r = Returned t
            \<and> Value st2 (Some m) = Value st r
            \<and> GetLastUpdateTimestamp st2 (Some m) = GetLastUpdateTimestamp st r"
  proof -
    let ?x = "CgroupObj (c\<lparr>cg_lastUpdateTimestamp := t\<rparr>)"
    have 1: "UpdateLastUpdateTimestamp r t st' = Returned (store u ?x st')"
      by (simp add: UpdateLastUpdateTimestamp_def r')
    have 2: "dispatch (store u ?x st') r = Some (RecvCgroup u (c\<lparr>cg_lastUpdateTimestamp := t\<rparr>))"
      by (rule dispatch_store_target_Cgroup [OF r'])
    have 3: "dispatch (store u ?x st') (Some m) = Some (RecvCgroup m c)"
      using um by (intro dispatch_store_other [OF m']) auto
    show ?thesis
      using 1 getters_Cgroup [OF 2] getters_Cgroup [OF 3] g by simp
  qed
  show "\<exists>st2. set_value u v st' = Returned st2
            \<and> Value st2 r = Returned v
            \<and> Value st2 (Some m) = Value st r
            \<and> GetLastUpdateTimestamp st2 (Some m) = GetLastUpdateTimestamp st r"
  proof -
    let ?x = "CgroupObj (c\<lparr>cg_value := v\<rparr>)"
    have 1: "set_value u v st' = Returned (store u ?x st')"
      by (simp add: set_value_def lu)
    have 2: "dispatch (store u ?x st') r = Some (RecvCgroup u (c\<lparr>cg_value := v\<rparr>))"
      by (rule dispatch_store_target_Cgroup [OF r'])
    have 3: "dispatch (store u ?x st') (Some m) = Some (RecvCgroup m c)"
      using um by (intro dispatch_store_other [OF m']) auto
    show ?thesis
      using 1 getters_Cgroup [OF 2] getters_Cgroup [OF 3] g by simp
  qed
qed

lemma Clone_independent_Default:
  assumes r: "dispatch st r = Some (RecvDefault u d)"
  defines "m \<equiv> length (heap st)"
  defines "st' \<equiv> st\<lparr>heap := heap st @ [DefaultObj d]\<rparr>"
  shows "Clone r st = Returned (Some m, st')"
    and "lookup st m = None"
    and "lookup st' m = Some (DefaultObj d)"
    and "\<exists>st2. UpdateLastUpdateTimestamp (Some m) t st' = Returned st2
            \<and> GetLastUpdateTimestamp st2 (Some m) = Returned t
            \<and> Value st2 r = Value st r
            \<and> GetLastUpdateTimestamp st2 r = GetLastUpdateTimestamp st r"
    and "\<exists>st2. set_value m v st' = Returned st2
            \<and> Value st2 (Some m) = Returned v
            \<and> Value st2 r = Value st r
            \<and> GetLastUpdateTimestamp st2 r = GetLastUpdateTimestamp st r"
    and "\<exists>st2. UpdateLastUpdateTimestamp r t st' = Returned st2
            \<and> GetLastUpdateTimestamp st2 r = Returned t
            \<and> Value st2 (Some m) = Value st r
            \<and> GetLastUpdateTimestamp st2 (Some m) = GetLastUpdateTimestamp st r"
    and "\<exists>st2. set_value u v st' = Returned st2
            \<and> Value st2 r = Returned v
            \<and> Value st2 (Some m) = Value st r
            \<and> GetLastUpdateTimestamp st2 (Some m) = GetLastUpdateTimestamp st r"
proof -
  have u: "lookup st u = Some (DefaultObj d)" and um: "u \<noteq> m" and rm: "r \<noteq> Some m"
    using r by (auto simp: dispatch_Default_iff m_def dest: lookup_Some_less)
  have r': "dispatch st' r = Some (RecvDefault u d)"
    unfolding st'_def by (rule dispatch_append [OF r])
  have lm: "lookup st' m = Some (DefaultObj d)"
    by (simp add: st'_def m_def lookup_append)
  have lu: "lookup st' u = Some (DefaultObj d)"
    using r' by (simp add: dispatch_Default_iff)
  have m': "dispatch st' (Some m) = Some (RecvDefault m d)"
    using lm by (simp add: dispatch_Default_iff)
  note g = getters_Default [OF r]
  show "Clone r st = Returned (Some m, st')"
    unfolding m_def st'_def by (rule Clone_Default [OF r])
  show "lookup st m = None"
    by (simp add: m_def lookup_fresh)
  show "lookup st' m = Some (DefaultObj d)"
    by (rule lm)
  show "\<exists>st2. UpdateLastUpdateTimestamp (Some m) t st' = Returned st2
            \<and> GetLastUpdateTimestamp st2 (Some m) = Returned t
            \<and> Value st2 r = Value st r
            \<and> GetLastUpdateTimestamp st2 r = GetLastUpdateTimestamp st r"
  proof -
    let ?x = "DefaultObj (d\<lparr>df_lastUpdateTimestamp := t\<rparr>)"
    have 1: "UpdateLastUpdateTimestamp (Some m) t st' = Returned (store m ?x st')"
      by (simp add: UpdateLastUpdateTimestamp_def m')
    have 2: "dispatch (store m ?x st') (Some m)
               = Some (RecvDefault m (d\<lparr>df_lastUpdateTimestamp := t\<rparr>))"
      by (rule dispatch_store_new_Default [OF lm])
    have 3: "dispatch (store m ?x st') r = Some (RecvDefault u d)"
      using um rm by (intro dispatch_store_other [OF r']) auto
    show ?thesis
      using 1 getters_Default [OF 2] getters_Default [OF 3] g by simp
  qed
  show "\<exists>st2. set_value m v st' = Returned st2
            \<and> Value st2 (Some m) = Returned v
            \<and> Value st2 r = Value st r
            \<and> GetLastUpdateTimestamp st2 r = GetLastUpdateTimestamp st r"
  proof -
    let ?x = "DefaultObj (d\<lparr>df_value := v\<rparr>)"
    have 1: "set_value m v st' = Returned (store m ?x st')"
      by (simp add: set_value_def lm)
    have 2: "dispatch (store m ?x st') (Some m) = Some (RecvDefault m (d\<lparr>df_value := v\<rparr>))"
      by (rule dispatch_store_new_Default [OF lm])
    have 3: "dispatch (store m ?x st') r = Some (RecvDefault u d)"
      using um rm by (intro dispatch_store_other [OF r']) auto
    show ?thesis
      using 1 getters_Default [OF 2] getters_Default [OF 3] g by simp
  qed
  show "\<exists>st2. UpdateLastUpdateTimestamp r t st' = Returned st2
            \<and> GetLastUpdateTimestamp st2 r = Returned t
            \<and> Value st2 (Some m) = Value st r
            \<and> GetLastUpdateTimestamp st2 (Some m) = GetLastUpdateTimestamp st r"
  proof -
    let ?x = "DefaultObj (d\<lparr>df_lastUpdateTimestamp := t\<rparr>)"
    have 1: "UpdateLastUpdateTimestamp r t st' = Returned (store u ?x st')"
      by (simp add: UpdateLastUpdateTimestamp_def r')
    have 2: "dispatch (store u ?x st') r = Some (RecvDefault u (d\<lparr>df_lastUpdateTimestamp := t\<rparr>))"
      by (rule dispatch_store_target_Default [OF r'])
    have 3: "dispatch (store u ?x st') (Some m) = Some (RecvDefault m d)"
      using um by (intro dispatch_store_other [OF m']) auto
    show ?thesis
      using 1 getters_Default [OF 2] getters_Default [OF 3] g by simp
  qed
  show "\<exists>st2. set_value u v st' = Returned st2
            \<and> Value st2 r = Returned v
            \<and> Value st2 (Some m) = Value st r
            \<and> GetLastUpdateTimestamp st2 (Some m) = GetLastUpdateTimestamp st r"
  proof -
    let ?x = "DefaultObj (d\<lparr>df_value := v\<rparr>)"
    have 1: "set_value u v st' = Returned (store u ?x st')"
      by (simp add: set_value_def lu)
    have 2: "dispatch (store u ?x st') r = Some (RecvDefault u (d\<lparr>df_value := v\<rparr>))"
      by (rule dispatch_store_target_Default [OF r'])
    have 3: "dispatch (store u ?x st') (Some m) = Some (RecvDefault m d)"
      using um by (intro dispatch_store_other [OF m']) auto
    show ?thesis
      using 1 getters_Default [OF 2] getters_Default [OF 3] g by simp
  qed
qed

text \<open>
  C9. For every updater on which a method call resolves (a cgroup or a default
  updater, also reached through a guest wrapper), \<^verbatim>\<open>Clone()\<close> returns a pointer to a
  new object with the same fields, the strategy functions among them. Updating the
  clone's timestamp or assigning its value leaves \<^verbatim>\<open>Value()\<close> and
  \<^verbatim>\<open>GetLastUpdateTimestamp()\<close> of the source as they were, and updating the source's
  timestamp or assigning its value leaves those of the clone as they were at the time
  of the clone.
\<close>

theorem C9_Clone_independent:
  assumes "dispatch st r = Some recv"
  shows "\<exists>m st'. Clone r st = Returned (Some m, st')
     \<and> lookup st m = None
     \<and> (case recv of
           RecvCgroup u c \<Rightarrow> lookup st' m = Some (CgroupObj c)
         | RecvDefault u d \<Rightarrow> lookup st' m = Some (DefaultObj d))
     \<and> (\<forall>t. \<exists>st2. UpdateLastUpdateTimestamp (Some m) t st' = Returned st2
            \<and> GetLastUpdateTimestamp st2 (Some m) = Returned t
            \<and> Value st2 r = Value st r
            \<and> GetLastUpdateTimestamp st2 r = GetLastUpdateTimestamp st r)
     \<and> (\<forall>v. \<exists>st2. set_value m v st' = Returned st2
            \<and> Value st2 (Some m) = Returned v
            \<and> Value st2 r = Value st r
            \<and> GetLastUpdateTimestamp st2 r = GetLastUpdateTimestamp st r)
     \<and> (\<forall>t. \<exists>st2. UpdateLastUpdateTimestamp r t st' = Returned st2
            \<and> GetLastUpdateTimestamp st2 r = Returned t
            \<and> Value st2 (Some m) = Value st r
            \<and> GetLastUpdateTimestamp st2 (Some m) = GetLastUpdateTimestamp st r)
     \<and> (\<forall>v. \<exists>st2. set_value (case recv of RecvCgroup u c \<Rightarrow> u | RecvDefault u d \<Rightarrow> u) v st'
                       = Returned st2
            \<and> Value st2 r = Returned v
            \<and> Value st2 (Some m) = Value st r
            \<and> GetLastUpdateTimestamp st2 (Some m) = GetLastUpdateTimestamp st r)"
proof (cases recv)
  case (RecvCgroup u c)
  with assms have r: "dispatch st r = Some (RecvCgroup u c)" by simp
  note facts = Clone_independent_Cgroup [OF r]
  show ?thesis
    apply (rule exI [of _ "length (heap st)"])
    apply (rule exI [of _ "st\<lparr>heap := heap st @ [CgroupObj c]\<rparr>"])
    apply (simp only: RecvCgroup receiver.case)
    apply (intro conjI allI)
          apply (rule facts)+
    done
next
  case (RecvDefault u d)
  with assms have r: "dispatch st r = Some (RecvDefault u d)" by simp
  note facts = Clone_independent_Default [OF r]
  show ?thesis
    apply (rule exI [of _ "length (heap st)"])
    apply (rule exI [of _ "st\<lparr>heap := heap st @ [DefaultObj d]\<rparr>"])
    apply (simp only: RecvDefault receiver.case)
    apply (intro conjI allI)
          apply (rule facts)+
    done
qed

theorem C9_Clone_independent_witness:
  "dispatch ex_state (Some 0) = Some (RecvCgroup 0 ex_shares)
   \<and> (\<exists>m st'. Clone (Some 0) ex_state = Returned (Some m, st')
     \<and> lookup ex_state m = None
     \<and> lookup st' m = Some (CgroupObj ex_shares)
     \<and> (\<forall>t. \<exists>st2. UpdateLastUpdateTimestamp (Some m) t st' = Returned st2
            \<and> GetLastUpdateTimestamp st2 (Some m) = Returned t
            \<and> Value st2 (Some 0) = Returned ''1024''
            \<and> GetLastUpdateTimestamp st2 (Some 0) = Returned 0)
     \<and> (\<forall>v. \<exists>st2. set_value m v st' = Returned st2
            \<and> Value st2 (Some m) = Returned v
            \<and> Value st2 (Some 0) = Returned ''1024''
            \<and> GetLastUpdateTimestamp st2 (Some 0) = Returned 0)
     \<and> (\<forall>t. \<exists>st2. UpdateLastUpdateTimestamp (Some 0) t st' = Returned st2
            \<and> GetLastUpdateTimestamp st2 (Some 0) = Returned t
            \<and> Value st2 (Some m) = Returned ''1024''
            \<and> GetLastUpdateTimestamp st2 (Some m) = Returned 0)
     \<and> (\<forall>v. \<exists>st2. set_value 0 v st' = Returned st2
            \<and> Value st2 (Some 0) = Returned v
            \<and> Value st2 (Some m) = Returned ''1024''
            \<and> GetLastUpdateTimestamp st2 (Some m) = Returned 0))
   \<and> dispatch ex_state (Some 1) = Some (RecvDefault 1 ex_sysctl)
   \<and> (\<exists>m st'. Clone (Some 1) ex_state = Returned (Some m, st')
     \<and> lookup ex_state m = None
     \<and> lookup st' m = Some (DefaultObj ex_sysctl)
     \<and> (\<forall>t. \<exists>st2. UpdateLastUpdateTimestamp (Some m) t st' = Returned st2
            \<and> GetLastUpdateTimestamp st2 (Some m) = Returned t
            \<and> Value st2 (Some 1) = Returned ''1''
            \<and> GetLastUpdateTimestamp st2 (Some 1) = Returned 0)
     \<and> (\<forall>v. \<exists>st2. set_value m v st' = Returned st2
            \<and> Value st2 (Some m) = Returned v
            \<and> Value st2 (Some 1) = Returned ''1''
            \<and> GetLastUpdateTimestamp st2 (Some 1) = Returned 0)
     \<and> (\<forall>t. \<exists>st2. UpdateLastUpdateTimestamp (Some 1) t st' = Returned st2
            \<and> GetLastUpdateTimestamp st2 (Some 1) = Returned t
            \<and> Value st2 (Some m) = Returned ''1''
            \<and> GetLastUpdateTimestamp st2 (Some m) = Returned 0)
     \<and> (\<forall>v. \<exists>st2. set_value 1 v st' = Returned st2
            \<and> Value st2 (Some 1) = Returned v
            \<and> Value st2 (Some m) = Returned ''1''
            \<and> GetLastUpdateTimestamp st2 (Some m) = Returned 0))
   \<and> dispatch ex_state (Some 2) = Some (RecvCgroup 0 ex_shares)
   \<and> (\<exists>m st'. Clone (Some 2) ex_state = Returned (Some m, st')
     \<and> lookup ex_state m = None
     \<and> lookup st' m = Some (CgroupObj ex_shares))"
proof -
  have v: "Value ex_state (Some 0) = Returned ''1024''"
    and t: "GetLastUpdateTimestamp ex_state (Some 0) = Returned 0"
    by (simp_all add: Value_def GetLastUpdateTimestamp_def ex_dispatch) (simp_all add: ex_shares_def)
  have v1: "Value ex_state (Some 1) = Returned ''1''"
    and t1: "GetLastUpdateTimestamp ex_state (Some 1) = Returned 0"
    by (simp_all add: Value_def GetLastUpdateTimestamp_def ex_dispatch [simplified])
       (simp_all add: ex_sysctl_def)
  from C9_Clone_independent [OF ex_dispatch(1)] v t
  have 0: "\<exists>m st'. Clone (Some 0) ex_state = Returned (Some m, st')
     \<and> lookup ex_state m = None
     \<and> lookup st' m = Some (CgroupObj ex_shares)
     \<and> (\<forall>t. \<exists>st2. UpdateLastUpdateTimestamp (Some m) t st' = Returned st2
            \<and> GetLastUpdateTimestamp st2 (Some m) = Returned t
            \<and> Value st2 (Some 0) = Returned ''1024''
            \<and> GetLastUpdateTimestamp st2 (Some 0) = Returned 0)
     \<and> (\<forall>v. \<exists>st2. set_value m v st' = Returned st2
            \<and> Value st2 (Some m) = Returned v
            \<and> Value st2 (Some 0) = Returned ''1024''
            \<and> GetLastUpdateTimestamp st2 (Some 0) = Returned 0)
     \<and> (\<forall>t. \<exists>st2. UpdateLastUpdateTimestamp (Some 0) t st' = Returned st2
            \<and> GetLastUpdateTimestamp st2 (Some 0) = Returned t
            \<and> Value st2 (Some m) = Returned ''1024''
            \<and> GetLastUpdateTimestamp st2 (Some m) = Returned 0)
     \<and> (\<forall>v. \<exists>st2. set_value 0 v st' = Returned st2
            \<and> Value st2 (Some 0) = Returned v
            \<and> Value st2 (Some m) = Returned ''1024''
            \<and> GetLastUpdateTimestamp st2 (Some m) = Returned 0)"
    by simp
  from C9_Clone_independent [OF ex_dispatch(2)] v1 t1
  have 1: "\<exists>m st'. Clone (Some 1) ex_state = Returned (Some m, st')
     \<and> lookup ex_state m = None
     \<and> lookup st' m = Some (DefaultObj ex_sysctl)
     \<and> (\<forall>t. \<exists>st2. UpdateLastUpdateTimestamp (Some m) t st' = Returned st2
            \<and> GetLastUpdateTimestamp st2 (Some m) = Returned t
            \<and> Value st2 (Some 1) = Returned ''1''
            \<and> GetLastUpdateTimestamp st2 (Some 1) = Returned 0)
     \<and> (\<forall>v. \<exists>st2. set_value m v st' = Returned st2
            \<and> Value st2 (Some m) = Returned v
            \<and> Value st2 (Some 1) = Returned ''1''
            \<and> GetLastUpdateTimestamp st2 (Some 1) = Returned 0)
     \<and> (\<forall>t. \<exists>st2. UpdateLastUpdateTimestamp (Some 1) t st' = Returned st2
            \<and> GetLastUpdateTimestamp st2 (Some 1) = Returned t
            \<and> Value st2 (Some m) = Returned ''1''
            \<and> GetLastUpdateTimestamp st2 (Some m) = Returned 0)
     \<and> (\<forall>v. \<exists>st2. set_value 1 v st' = Returned st2
            \<and> Value st2 (Some 1) = Returned v
            \<and> Value st2 (Some m) = Returned ''1''
            \<and> GetLastUpdateTimestamp st2 (Some m) = Returned 0)"
    by (simp del: One_nat_def)
  from C9_Clone_independent [OF ex_dispatch(3)]
  have 2: "\<exists>m st'. Clone (Some 2) ex_state = Returned (Some m, st')
     \<and> lookup ex_state m = None
     \<and> lookup st' m = Some (CgroupObj ex_shares)"
    by auto
  from 0 1 2 ex_dispatch show ?thesis
    by (intro conjI) assumption+
qed

text \<open>
  C10. \<^verbatim>\<open>Clone()\<close> on a guest updater is the promoted method of the embedded cgroup
  updater: it returns a pointer to a new plain cgroup updater object holding the fields
  of the embedded updater. The new object is not a guest object and has no sandbox
  identity; the guest object itself is unchanged. With a nil embedded pointer the call
  panics.
\<close>

theorem C10_guest_Clone_is_plain_cgroup:
  assumes "lookup st a = Some (GuestObj g)"
  shows "(guest_CgroupResourceUpdater g = None \<longrightarrow> Clone (Some a) st = Panicked)
     \<and> (\<forall>u c. guest_CgroupResourceUpdater g = Some u \<longrightarrow> lookup st u = Some (CgroupObj c) \<longrightarrow>
          (\<exists>m st'. Clone (Some a) st = Returned (Some m, st')
             \<and> lookup st m = None
             \<and> lookup st' m = Some (CgroupObj c)
             \<and> (\<forall>g'. lookup st' m \<noteq> Some (GuestObj g'))
             \<and> lookup st' a = Some (GuestObj g)
             \<and> dispatch st' (Some m) = Some (RecvCgroup m c)))"
proof (intro conjI allI impI)
  assume "guest_CgroupResourceUpdater g = None"
  with assms show "Clone (Some a) st = Panicked"
    by (simp add: Clone_def dispatch_def)
next
  fix u c
  assume u: "guest_CgroupResourceUpdater g = Some u" and c: "lookup st u = Some (CgroupObj c)"
  let ?m = "length (heap st)" and ?st = "st\<lparr>heap := heap st @ [CgroupObj c]\<rparr>"
  from assms u c have r: "dispatch st (Some a) = Some (RecvCgroup u c)"
    by (simp add: dispatch_Cgroup_iff)
  have "Clone (Some a) st = Returned (Some ?m, ?st)"
    by (rule Clone_Cgroup [OF r])
  moreover have "lookup st ?m = None"
    by (rule lookup_fresh)
  moreover have m: "lookup ?st ?m = Some (CgroupObj c)"
    by (simp add: lookup_append)
  moreover have "lookup ?st a = Some (GuestObj g)"
    using assms by (auto simp: lookup_append dest: lookup_Some_less)
  moreover have "dispatch ?st (Some ?m) = Some (RecvCgroup ?m c)"
    using m by (simp add: dispatch_Cgroup_iff)
  ultimately show "\<exists>m st'. Clone (Some a) st = Returned (Some m, st')
             \<and> lookup st m = None
             \<and> lookup st' m = Some (CgroupObj c)
             \<and> (\<forall>g'. lookup st' m \<noteq> Some (GuestObj g'))
             \<and> lookup st' a = Some (GuestObj g)
             \<and> dispatch st' (Some m) = Some (RecvCgroup m c)"
    by simp
qed

theorem C10_guest_Clone_is_plain_cgroup_witness:
  "lookup ex_state 2 = Some (GuestObj ex_guest)
   \<and> guest_CgroupResourceUpdater ex_guest = Some 0
   \<and> lookup ex_state 0 = Some (CgroupObj ex_shares)
   \<and> (\<exists>m st'. Clone (Some 2) ex_state = Returned (Some m, st')
         \<and> lookup ex_state m = None
         \<and> lookup st' m = Some (CgroupObj ex_shares)
         \<and> (\<forall>g'. lookup st' m \<noteq> Some (GuestObj g'))
         \<and> lookup st' 2 = Some (GuestObj ex_guest)
         \<and> dispatch st' (Some m) = Some (RecvCgroup m ex_shares))
   \<and> lookup (ex_state\<lparr>heap := [GuestObj ex_guest_nil]\<rparr>) 0 = Some (GuestObj ex_guest_nil)
   \<and> guest_CgroupResourceUpdater ex_guest_nil = None
   \<and> Clone (Some 0) (ex_state\<lparr>heap := [GuestObj ex_guest_nil]\<rparr>) = Panicked"
proof -
  have g: "lookup ex_state 2 = Some (GuestObj ex_guest)"
    and e: "guest_CgroupResourceUpdater ex_guest = Some 0"
    and c: "lookup ex_state 0 = Some (CgroupObj ex_shares)"
    by (simp_all add: lookup_def ex_state_def ex_guest_def)
  have n: "lookup (ex_state\<lparr>heap := [GuestObj ex_guest_nil]\<rparr>) 0 = Some (GuestObj ex_guest_nil)"
    and ne: "guest_CgroupResourceUpdater ex_guest_nil = None"
    by (simp_all add: lookup_def ex_guest_nil_def)
  from C10_guest_Clone_is_plain_cgroup [OF g] e c
  have 1: "\<exists>m st'. Clone (Some 2) ex_state = Returned (Some m, st')
         \<and> lookup ex_state m = None
         \<and> lookup st' m = Some (CgroupObj ex_shares)
         \<and> (\<forall>g'. lookup st' m \<noteq> Some (GuestObj g'))
         \<and> lookup st' 2 = Some (GuestObj ex_guest)
         \<and> dispatch st' (Some m) = Some (RecvCgroup m ex_shares)"
    by simp
  from C10_guest_Clone_is_plain_cgroup [OF n] ne
  have 2: "Clone (Some 0) (ex_state\<lparr>heap := [GuestObj ex_guest_nil]\<rparr>) = Panicked"
    by simp
  from g e c n ne 1 2 show ?thesis by simp
qed

subsection \<open>MergeUpdate without a merge function\<close>

text \<open>
  C3, as amended. For a cgroup updater whose \<^verbatim>\<open>mergeUpdateFunc\<close> is nil and for every
  default updater, \<^verbatim>\<open>MergeUpdate()\<close> runs the plain update (it panics when that panics)
  and returns a nil updater together with the plain update's error and final state.
\<close>

theorem C3_MergeUpdate_without_merge_function:
  assumes "dispatch st r = Some recv"
    and "case recv of RecvCgroup u c \<Rightarrow> cg_mergeUpdateFunc c = None | RecvDefault u d \<Rightarrow> True"
  shows "MergeUpdate sys r st =
           (case Update sys r st of
              Panicked \<Rightarrow> Panicked
            | Returned (err, st') \<Rightarrow> Returned ((None, err), st'))"
  using assms
  by (cases recv) (simp_all add: MergeUpdate_def Update_def)

theorem C3_MergeUpdate_without_merge_function_witness:
  "dispatch ex_state (Some 0) = Some (RecvCgroup 0 ex_shares)
   \<and> cg_mergeUpdateFunc ex_shares = None
   \<and> Update mem_sysutil (Some 0) ex_state =
       Returned (None, ex_state\<lparr>world := ex_files(''kubepods/cpu.shares'' \<mapsto> ''1024''),
         trace := [Audit ''UpdateCgroups'' ''kubepods/cpu.shares'' ''1024'',
                 Call_CgroupFileWriteIfDifferent ''kubepods'' (mem_resource ''cpu.shares'') ''1024'']\<rparr>)
   \<and> MergeUpdate mem_sysutil (Some 0) ex_state =
       Returned ((None, None), ex_state\<lparr>world := ex_files(''kubepods/cpu.shares'' \<mapsto> ''1024''),
         trace := [Audit ''UpdateCgroups'' ''kubepods/cpu.shares'' ''1024'',
                 Call_CgroupFileWriteIfDifferent ''kubepods'' (mem_resource ''cpu.shares'') ''1024'']\<rparr>)
   \<and> dispatch ex_state (Some 1) = Some (RecvDefault 1 ex_sysctl)
   \<and> Update mem_sysutil (Some 1) ex_state =
       Returned (Some (SysError ''no such file''), ex_state\<lparr>
         trace := [Audit ''UpdateSystemConfig'' ''/proc/sys/vm/overcommit_memory'' ''1'',
                 Call_CommonFileWriteIfDifferent ''/proc/sys/vm/overcommit_memory'' ''1'']\<rparr>)
   \<and> MergeUpdate mem_sysutil (Some 1) ex_state =
       Returned ((None, Some (SysError ''no such file'')), ex_state\<lparr>
         trace := [Audit ''UpdateSystemConfig'' ''/proc/sys/vm/overcommit_memory'' ''1'',
                 Call_CommonFileWriteIfDifferent ''/proc/sys/vm/overcommit_memory'' ''1'']\<rparr>)"
proof -
  have m: "cg_mergeUpdateFunc ex_shares = None"
    by (simp add: ex_shares_def)
  have u0: "Update mem_sysutil (Some 0) ex_state =
       Returned (None, ex_state\<lparr>world := ex_files(''kubepods/cpu.shares'' \<mapsto> ''1024''),
         trace := [Audit ''UpdateCgroups'' ''kubepods/cpu.shares'' ''1024'',
                 Call_CgroupFileWriteIfDifferent ''kubepods'' (mem_resource ''cpu.shares'') ''1024'']\<rparr>)"
    by (simp add: method_eval heap_eval mem_eval ex_eval Let_def)
  have u1: "Update mem_sysutil (Some 1) ex_state =
       Returned (Some (SysError ''no such file''), ex_state\<lparr>
         trace := [Audit ''UpdateSystemConfig'' ''/proc/sys/vm/overcommit_memory'' ''1'',
                 Call_CommonFileWriteIfDifferent ''/proc/sys/vm/overcommit_memory'' ''1'']\<rparr>)"
    by (simp add: method_eval heap_eval mem_eval ex_eval Let_def)
  from C3_MergeUpdate_without_merge_function [of ex_state "Some 0" "RecvCgroup 0 ex_shares" mem_sysutil]
    ex_dispatch(1) m u0
  have 0: "MergeUpdate mem_sysutil (Some 0) ex_state =
       Returned ((None, None), ex_state\<lparr>world := ex_files(''kubepods/cpu.shares'' \<mapsto> ''1024''),
         trace := [Audit ''UpdateCgroups'' ''kubepods/cpu.shares'' ''1024'',
                 Call_CgroupFileWriteIfDifferent ''kubepods'' (mem_resource ''cpu.shares'') ''1024'']\<rparr>)"
    by simp
  from C3_MergeUpdate_without_merge_function [of ex_state "Some 1" "RecvDefault 1 ex_sysctl" mem_sysutil]
    ex_dispatch(2) u1
  have 1: "MergeUpdate mem_sysutil (Some 1) ex_state =
       Returned ((None, Some (SysError ''no such file'')), ex_state\<lparr>
         trace := [Audit ''UpdateSystemConfig'' ''/proc/sys/vm/overcommit_memory'' ''1'',
                 Call_CommonFileWriteIfDifferent ''/proc/sys/vm/overcommit_memory'' ''1'']\<rparr>)"
    by simp
  from m u0 u1 0 1 ex_dispatch show ?thesis by simp
qed

text \<open>
  C3 as the specification states it, with an updater instance representing the
  post-merge state as the first result, does not hold: on a common cgroup updater for
  \<^verbatim>\<open>cpu.shares\<close> the plain update succeeds and writes the value, and
  \<^verbatim>\<open>MergeUpdate()\<close> returns \<^verbatim>\<open>(nil, nil)\<close>.
\<close>

theorem C3_MergeUpdate_returns_nil_counterexample:
  "MergeUpdate mem_sysutil (Some 0) ex_state =
     Returned ((None, None),
       \<lparr>heap = [CgroupObj ex_shares, DefaultObj ex_sysctl, GuestObj ex_guest],
        world = ex_files(''kubepods/cpu.shares'' \<mapsto> ''1024''),
        trace = [Audit ''UpdateCgroups'' ''kubepods/cpu.shares'' ''1024'',
                 Call_CgroupFileWriteIfDifferent ''kubepods'' (mem_resource ''cpu.shares'') ''1024'']\<rparr>)"
  by (simp add: method_eval heap_eval mem_eval ex_eval Let_def)

subsection \<open>The paths of MergeFuncUpdateCgroup\<close>

lemma MergeFuncUpdateCgroup_invalid:
  assumes "assert_Cgroup st resource = Some (u, c)"
    and "Resource_IsValid (cg_file c) (cg_value c) = (False, msg)"
  shows "MergeFuncUpdateCgroup sys resource mergeCondition st
           = Returned ((resource, Some (ParseNewValueFailed msg)), st)"
  using assms by (simp add: MergeFuncUpdateCgroup_def)

lemma MergeFuncUpdateCgroup_read_failure:
  assumes "assert_Cgroup st resource = Some (u, c)"
    and "Resource_IsValid (cg_file c) (cg_value c) = (True, msg)"
    and "CgroupFileRead sys (world st) (cg_parentDir c) (cg_file c) = Inl err"
  shows "MergeFuncUpdateCgroup sys resource mergeCondition st
           = Returned ((resource, Some err),
               st\<lparr>trace := trace st @ [Call_CgroupFileRead (cg_parentDir c) (cg_file c)]\<rparr>)"
  using assms by (simp add: MergeFuncUpdateCgroup_def Let_def emit_def)

lemma MergeFuncUpdateCgroup_policy_failure:
  assumes "assert_Cgroup st resource = Some (u, c)"
    and "Resource_IsValid (cg_file c) (cg_value c) = (True, msg)"
    and "CgroupFileRead sys (world st) (cg_parentDir c) (cg_file c) = Inr oldStr"
    and "mergeCondition oldStr (cg_value c) = (mergedValue, needMerge, Some err)"
  shows "MergeFuncUpdateCgroup sys resource mergeCondition st
           = Returned ((resource, Some err),
               st\<lparr>trace := trace st @ [Call_CgroupFileRead (cg_parentDir c) (cg_file c)]\<rparr>)"
  using assms by (simp add: MergeFuncUpdateCgroup_def Let_def emit_def)

lemma MergeFuncUpdateCgroup_skip:
  assumes "assert_Cgroup st resource = Some (u, c)"
    and "Resource_IsValid (cg_file c) (cg_value c) = (True, msg)"
    and "CgroupFileRead sys (world st) (cg_parentDir c) (cg_file c) = Inr oldStr"
    and "mergeCondition oldStr (cg_value c) = (mergedValue, False, None)"
  shows "MergeFuncUpdateCgroup sys resource mergeCondition st
           = Returned ((Some (length (heap st)), None),
               st\<lparr>heap := heap st @ [CgroupObj (c\<lparr>cg_value := oldStr\<rparr>)],
                  trace := trace st @ [Call_CgroupFileRead (cg_parentDir c) (cg_file c)]\<rparr>)"
proof -
  let ?st1 = "emit (Call_CgroupFileRead (cg_parentDir c) (cg_file c)) st"
  have d: "dispatch ?st1 resource = Some (RecvCgroup u c)"
    using assms(1) by (simp add: dispatch_emit assert_Cgroup_dispatch)
  let ?m = "length (heap st)"
  let ?st2 = "?st1\<lparr>heap := heap ?st1 @ [CgroupObj c]\<rparr>"
  have cl: "Clone resource ?st1 = Returned (Some ?m, ?st2)"
    using Clone_Cgroup [OF d] by (simp add: state_emit)
  have a2: "assert_Cgroup ?st2 (Some ?m) = Some (?m, c)"
    by (simp add: assert_Cgroup_def lookup_def state_emit)
  have sv: "set_value ?m oldStr ?st2
              = Returned (st\<lparr>heap := heap st @ [CgroupObj (c\<lparr>cg_value := oldStr\<rparr>)],
                  trace := trace st @ [Call_CgroupFileRead (cg_parentDir c) (cg_file c)]\<rparr>)"
    by (simp add: set_value_def lookup_def store_def emit_def)
  show ?thesis
    using assms cl a2 sv
    by (simp add: MergeFuncUpdateCgroup_def Let_def state_emit)
qed

lemma MergeFuncUpdateCgroup_write:
  assumes "assert_Cgroup st resource = Some (u, c)"
    and "Resource_IsValid (cg_file c) (cg_value c) = (True, msg)"
    and "CgroupFileRead sys (world st) (cg_parentDir c) (cg_file c) = Inr oldStr"
    and "mergeCondition oldStr (cg_value c) = (mergedValue, True, None)"
    and "CgroupFileWrite sys (world st) (cg_parentDir c) (cg_file c) mergedValue = (werr, w)"
  shows "MergeFuncUpdateCgroup sys resource mergeCondition st
           = Returned ((resource, werr),
               st\<lparr>world := w,
                  trace := trace st @
                    [Call_CgroupFileRead (cg_parentDir c) (cg_file c),
                     Audit ReasonUpdateCgroups (Resource_Path (cg_file c) (cg_parentDir c))
                       (cg_value c),
                     Call_CgroupFileWrite (cg_parentDir c) (cg_file c) mergedValue]\<rparr>)"
proof -
  let ?st1 = "emit (Call_CgroupFileRead (cg_parentDir c) (cg_file c)) st"
  have d: "dispatch ?st1 resource = Some (RecvCgroup u c)"
    using assms(1) by (simp add: dispatch_emit assert_Cgroup_dispatch)
  show ?thesis
    using assms d
    by (simp add: MergeFuncUpdateCgroup_def Let_def state_emit Path_def Value_def)
qed

lemma MergeUpdate_closure:
  assumes "assert_Cgroup st resource = Some (u, c)"
    and "cg_mergeUpdateFunc c = Some (Fn_MergeFuncUpdateCgroup mergeCondition)"
  shows "MergeUpdate sys resource st = MergeFuncUpdateCgroup sys resource mergeCondition st"
proof -
  have d: "dispatch st resource = Some (RecvCgroup u c)"
    by (rule assert_Cgroup_dispatch [OF assms(1)])
  have r: "resource = Some u"
    using assms(1) by (simp add: assert_Cgroup_iff)
  show ?thesis
    using d assms(2) by (simp add: MergeUpdate_def call_MergeUpdateFunc_def r)
qed

text \<open>
  C1. On a cgroup updater with a valid pending value, when the read of the current
  value succeeds and the merge condition reports no write needed,
  \<^verbatim>\<open>MergeFuncUpdateCgroup\<close> returns a nil error and a pointer to a new object, the
  clone, whose fields are those of the updater except that its value is the old on-disk
  value; \<^verbatim>\<open>Value()\<close> of the clone is the old value and \<^verbatim>\<open>Value()\<close> of the original is
  still the requested value; every object of the heap is as it was; the outside world
  is unchanged and the only call made is the read: no write, no audit entry. For a
  merge-capable updater, \<^verbatim>\<open>MergeUpdate()\<close> returns the same.
\<close>

theorem C1_merge_skip_returns_clone:
  assumes "assert_Cgroup st resource = Some (u, c)"
    and "Resource_IsValid (cg_file c) (cg_value c) = (True, msg)"
    and "CgroupFileRead sys (world st) (cg_parentDir c) (cg_file c) = Inr oldStr"
    and "mergeCondition oldStr (cg_value c) = (mergedValue, False, None)"
  shows "\<exists>m st'.
       MergeFuncUpdateCgroup sys resource mergeCondition st = Returned ((Some m, None), st')
     \<and> lookup st m = None
     \<and> lookup st' m = Some (CgroupObj (c\<lparr>cg_value := oldStr\<rparr>))
     \<and> Value st' (Some m) = Returned oldStr
     \<and> (\<forall>a x. lookup st a = Some x \<longrightarrow> lookup st' a = Some x)
     \<and> Value st' resource = Returned (cg_value c)
     \<and> world st' = world st
     \<and> trace st' = trace st @ [Call_CgroupFileRead (cg_parentDir c) (cg_file c)]
     \<and> (cg_mergeUpdateFunc c = Some (Fn_MergeFuncUpdateCgroup mergeCondition) \<longrightarrow>
          MergeUpdate sys resource st = Returned ((Some m, None), st'))"
proof -
  let ?m = "length (heap st)"
  let ?st = "st\<lparr>heap := heap st @ [CgroupObj (c\<lparr>cg_value := oldStr\<rparr>)],
               trace := trace st @ [Call_CgroupFileRead (cg_parentDir c) (cg_file c)]\<rparr>"
  have run: "MergeFuncUpdateCgroup sys resource mergeCondition st = Returned ((Some ?m, None), ?st)"
    by (rule MergeFuncUpdateCgroup_skip [where mergeCondition = mergeCondition, OF assms])
  have u: "resource = Some u" "lookup st u = Some (CgroupObj c)"
    using assms(1) by (simp_all add: assert_Cgroup_iff)
  have keep: "lookup ?st a = Some x" if "lookup st a = Some x" for a x
    using that by (auto simp: lookup_def nth_append split: if_splits)
  have new: "lookup ?st ?m = Some (CgroupObj (c\<lparr>cg_value := oldStr\<rparr>))"
    by (simp add: lookup_def)
  have "Value ?st (Some ?m) = Returned oldStr"
    using new by (simp add: Value_def dispatch_def)
  moreover have "Value ?st resource = Returned (cg_value c)"
    using keep [OF u(2)] by (simp add: Value_def dispatch_def u(1))
  moreover have "cg_mergeUpdateFunc c = Some (Fn_MergeFuncUpdateCgroup mergeCondition) \<longrightarrow>
          MergeUpdate sys resource st = Returned ((Some ?m, None), ?st)"
    using MergeUpdate_closure [OF assms(1)] run by simp
  ultimately show ?thesis
    using run new keep lookup_fresh [of st]
    by (intro exI [of _ ?m] exI [of _ ?st]) simp
qed

theorem C1_merge_skip_returns_clone_witness:
  "assert_Cgroup ex_merge_state (Some 0)
     = Some (0, ex_mergeable ''memory.min'' ''kubepods'' ''50'' MergeConditionIfValueIsLarger)
   \<and> Resource_IsValid (mem_resource ''memory.min'') ''50'' = (True, [])
   \<and> CgroupFileRead mem_sysutil ex_files ''kubepods'' (mem_resource ''memory.min'') = Inr ''100''
   \<and> MergeConditionIfValueIsLarger ''100'' ''50'' = (''50'', False, None)
   \<and> (\<exists>m st'.
         MergeFuncUpdateCgroup mem_sysutil (Some 0) MergeConditionIfValueIsLarger ex_merge_state
           = Returned ((Some m, None), st')
       \<and> lookup ex_merge_state m = None
       \<and> Value st' (Some m) = Returned ''100''
       \<and> Value st' (Some 0) = Returned ''50''
       \<and> world st' = ex_files
       \<and> trace st' = [Call_CgroupFileRead ''kubepods'' (mem_resource ''memory.min'')]
       \<and> MergeUpdate mem_sysutil (Some 0) ex_merge_state = Returned ((Some m, None), st'))"
proof -
  have "\<exists>m st'.
       MergeFuncUpdateCgroup mem_sysutil (Some 0) MergeConditionIfValueIsLarger ex_merge_state
         = Returned ((Some m, None), st')
     \<and> lookup ex_merge_state m = None
     \<and> lookup st' m = Some (CgroupObj
          ((ex_mergeable ''memory.min'' ''kubepods'' ''50'' MergeConditionIfValueIsLarger)
             \<lparr>cg_value := ''100''\<rparr>))
     \<and> Value st' (Some m) = Returned ''100''
     \<and> (\<forall>a x. lookup ex_merge_state a = Some x \<longrightarrow> lookup st' a = Some x)
     \<and> Value st' (Some 0)
         = Returned (cg_value (ex_mergeable ''memory.min'' ''kubepods'' ''50''
                                 MergeConditionIfValueIsLarger))
     \<and> world st' = world ex_merge_state
     \<and> trace st' = trace ex_merge_state @
         [Call_CgroupFileRead
            (cg_parentDir (ex_mergeable ''memory.min'' ''kubepods'' ''50''
                             MergeConditionIfValueIsLarger))
            (cg_file (ex_mergeable ''memory.min'' ''kubepods'' ''50''
                        MergeConditionIfValueIsLarger))]
     \<and> (cg_mergeUpdateFunc (ex_mergeable ''memory.min'' ''kubepods'' ''50''
                               MergeConditionIfValueIsLarger)
           = Some (Fn_MergeFuncUpdateCgroup MergeConditionIfValueIsLarger) \<longrightarrow>
          MergeUpdate mem_sysutil (Some 0) ex_merge_state = Returned ((Some m, None), st'))"
    by (rule C1_merge_skip_returns_clone
          [where mergeCondition = MergeConditionIfValueIsLarger and msg = "[]"
             and oldStr = "''100''" and mergedValue = "''50''", OF ex_assert(1)])
       (simp_all add: ex_simps)
  then obtain m st' where
    "MergeFuncUpdateCgroup mem_sysutil (Some 0) MergeConditionIfValueIsLarger ex_merge_state
         = Returned ((Some m, None), st')"
    "lookup ex_merge_state m = None"
    "Value st' (Some m) = Returned ''100''"
    "Value st' (Some 0) = Returned ''50''"
    "world st' = ex_files"
    "trace st' = [Call_CgroupFileRead ''kubepods'' (mem_resource ''memory.min'')]"
    "MergeUpdate mem_sysutil (Some 0) ex_merge_state = Returned ((Some m, None), st')"
    by (auto simp: ex_simps)
  then show ?thesis
    by (simp add: ex_simps ex_assert) 
qed

text \<open>
  C2. On a cgroup updater with a valid pending value, when the read succeeds and the
  merge condition reports write needed with the resolved value \<open>mergedValue\<close>,
  \<^verbatim>\<open>MergeFuncUpdateCgroup\<close> makes, after the read, one audit entry and exactly one call
  of the unconditional write, and the value written is \<open>mergedValue\<close>, the value the
  merge condition resolved, whatever the pending value of the updater is. It returns
  the pointer it was given, with the heap unchanged, and the error of the write (nil on
  success). For a merge-capable updater, one whose merge function is the closure over
  the merge condition, \<^verbatim>\<open>MergeUpdate()\<close> does the same.
\<close>

theorem C2_merge_write_returns_original:
  assumes "assert_Cgroup st resource = Some (u, c)"
    and "Resource_IsValid (cg_file c) (cg_value c) = (True, msg)"
    and "CgroupFileRead sys (world st) (cg_parentDir c) (cg_file c) = Inr oldStr"
    and "mergeCondition oldStr (cg_value c) = (mergedValue, True, None)"
    and "CgroupFileWrite sys (world st) (cg_parentDir c) (cg_file c) mergedValue = (werr, w)"
  shows "MergeFuncUpdateCgroup sys resource mergeCondition st
           = Returned ((resource, werr),
               st\<lparr>world := w,
                  trace := trace st @
                    [Call_CgroupFileRead (cg_parentDir c) (cg_file c),
                     Audit ReasonUpdateCgroups (Resource_Path (cg_file c) (cg_parentDir c))
                       (cg_value c),
                     Call_CgroupFileWrite (cg_parentDir c) (cg_file c) mergedValue]\<rparr>)
     \<and> (cg_mergeUpdateFunc c = Some (Fn_MergeFuncUpdateCgroup mergeCondition) \<longrightarrow>
          MergeUpdate sys resource st = MergeFuncUpdateCgroup sys resource mergeCondition st)"
  using MergeFuncUpdateCgroup_write [where mergeCondition = mergeCondition, OF assms] MergeUpdate_closure [OF assms(1)]
  by simp

theorem C2_merge_write_returns_original_witness:
  "assert_Cgroup ex_merge_state (Some 3)
     = Some (3, ex_mergeable ''cpuset.cpus'' ''kubepods'' ''4-5''
                  (MergeConditionIfCPUSetIsLooser cpulist))
   \<and> Resource_IsValid (mem_resource ''cpuset.cpus'') ''4-5'' = (True, [])
   \<and> CgroupFileRead mem_sysutil ex_files ''kubepods'' (mem_resource ''cpuset.cpus'') = Inr ''0-3''
   \<and> MergeConditionIfCPUSetIsLooser cpulist ''0-3'' ''4-5'' = (''0-5'', True, None)
   \<and> CgroupFileWrite mem_sysutil ex_files ''kubepods'' (mem_resource ''cpuset.cpus'') ''0-5''
       = (None, ex_files(''kubepods/cpuset.cpus'' \<mapsto> ''0-5''))
   \<and> MergeFuncUpdateCgroup mem_sysutil (Some 3) (MergeConditionIfCPUSetIsLooser cpulist)
         ex_merge_state
       = Returned ((Some 3, None),
           ex_merge_state\<lparr>world := ex_files(''kubepods/cpuset.cpus'' \<mapsto> ''0-5''),
             trace := [Call_CgroupFileRead ''kubepods'' (mem_resource ''cpuset.cpus''),
                       Audit ''UpdateCgroups'' ''kubepods/cpuset.cpus'' ''4-5'',
                       Call_CgroupFileWrite ''kubepods'' (mem_resource ''cpuset.cpus'') ''0-5'']\<rparr>)
   \<and> MergeUpdate mem_sysutil (Some 3) ex_merge_state
       = MergeFuncUpdateCgroup mem_sysutil (Some 3) (MergeConditionIfCPUSetIsLooser cpulist)
           ex_merge_state
   \<and> CgroupFileRead ro_sysutil ex_files ''kubepods'' (mem_resource ''memory.min'') = Inr ''100''
   \<and> MergeConditionIfValueIsLarger ''100'' ''200'' = (''200'', True, None)
   \<and> CgroupFileWrite ro_sysutil ex_files ''kubepods'' (mem_resource ''memory.min'') ''200''
       = (Some (SysError ''read-only file system''), ex_files)
   \<and> MergeFuncUpdateCgroup ro_sysutil (Some 1) MergeConditionIfValueIsLarger ex_merge_state
       = Returned ((Some 1, Some (SysError ''read-only file system'')),
           ex_merge_state\<lparr>world := ex_files,
             trace := [Call_CgroupFileRead ''kubepods'' (mem_resource ''memory.min''),
                       Audit ''UpdateCgroups'' ''kubepods/memory.min'' ''200'',
                       Call_CgroupFileWrite ''kubepods'' (mem_resource ''memory.min'') ''200'']\<rparr>)"
proof -
  have 1: "MergeFuncUpdateCgroup mem_sysutil (Some 3) (MergeConditionIfCPUSetIsLooser cpulist)
         ex_merge_state
       = Returned ((Some 3, None),
           ex_merge_state\<lparr>world := ex_files(''kubepods/cpuset.cpus'' \<mapsto> ''0-5''),
             trace := [Call_CgroupFileRead ''kubepods'' (mem_resource ''cpuset.cpus''),
                       Audit ''UpdateCgroups'' ''kubepods/cpuset.cpus'' ''4-5'',
                       Call_CgroupFileWrite ''kubepods'' (mem_resource ''cpuset.cpus'') ''0-5'']\<rparr>)
     \<and> MergeUpdate mem_sysutil (Some 3) ex_merge_state
       = MergeFuncUpdateCgroup mem_sysutil (Some 3) (MergeConditionIfCPUSetIsLooser cpulist)
           ex_merge_state"
    using C2_merge_write_returns_original
      [where mergeCondition = "MergeConditionIfCPUSetIsLooser cpulist" and msg = "[]"
         and oldStr = "''0-3''" and mergedValue = "''0-5''" and sys = mem_sysutil
         and werr = None and w = "ex_files(''kubepods/cpuset.cpus'' \<mapsto> ''0-5'')",
       OF ex_assert(4)]
    by (simp add: ex_simps ReasonUpdateCgroups_def)
  have 2: "MergeFuncUpdateCgroup ro_sysutil (Some 1) MergeConditionIfValueIsLarger ex_merge_state
       = Returned ((Some 1, Some (SysError ''read-only file system'')),
           ex_merge_state\<lparr>world := ex_files,
             trace := [Call_CgroupFileRead ''kubepods'' (mem_resource ''memory.min''),
                       Audit ''UpdateCgroups'' ''kubepods/memory.min'' ''200'',
                       Call_CgroupFileWrite ''kubepods'' (mem_resource ''memory.min'') ''200'']\<rparr>)"
    using C2_merge_write_returns_original
      [where mergeCondition = MergeConditionIfValueIsLarger and msg = "[]"
         and oldStr = "''100''" and mergedValue = "''200''" and sys = ro_sysutil
         and werr = "Some (SysError ''read-only file system'')" and w = ex_files,
       OF ex_assert(2)]
    by (simp add: ex_simps ReasonUpdateCgroups_def)
  from 1 2 show ?thesis
    by (simp add: ex_simps ex_assert)
qed

lemma MergeConditionIfValueIsLarger_error:
  assumes "MergeConditionIfValueIsLarger old new = (mv, nm, Some err)"
  shows "(\<exists>e. ParseInt new = Inl e \<and> err = NewValueNotInt64 e)
       \<or> (\<exists>e. ParseInt old = Inl e \<and> err = OldValueNotInt64 e)"
  using assms
  by (auto simp: MergeConditionIfValueIsLarger_def split: sum.splits)

lemma MergeConditionIfCPUSetIsLooser_error:
  assumes "MergeConditionIfCPUSetIsLooser cp old new = (mv, nm, Some err)"
  shows "(\<exists>e. cpuset_Parse cp new = Inl e \<and> err = NewValueNotValidCPUSet e)
       \<or> (\<exists>e. cpuset_Parse cp old = Inl e \<and> err = OldValueNotValidCPUSet e)"
  using assms
  by (auto simp: MergeConditionIfCPUSetIsLooser_def split: sum.splits if_splits)

lemma MergeFuncUpdateCgroup_error_returns_original:
  assumes a: "assert_Cgroup st resource = Some (u, c)"
    and run: "MergeFuncUpdateCgroup sys resource mergeCondition st = Returned ((r', Some err), st')"
  shows "r' = resource \<and> heap st' = heap st \<and>
     ((world st' = world st \<and>
         (trace st' = trace st \<or>
          trace st' = trace st @ [Call_CgroupFileRead (cg_parentDir c) (cg_file c)]))
      \<or> (\<exists>oldStr mergedValue w.
            CgroupFileRead sys (world st) (cg_parentDir c) (cg_file c) = Inr oldStr
          \<and> mergeCondition oldStr (cg_value c) = (mergedValue, True, None)
          \<and> CgroupFileWrite sys (world st) (cg_parentDir c) (cg_file c) mergedValue
              = (Some err, w)
          \<and> world st' = w
          \<and> trace st' = trace st @
                [Call_CgroupFileRead (cg_parentDir c) (cg_file c),
                 Audit ReasonUpdateCgroups (Resource_Path (cg_file c) (cg_parentDir c))
                   (cg_value c),
                 Call_CgroupFileWrite (cg_parentDir c) (cg_file c) mergedValue]))"
proof -
  obtain ok msg where v: "Resource_IsValid (cg_file c) (cg_value c) = (ok, msg)"
    by (cases "Resource_IsValid (cg_file c) (cg_value c)")
  show ?thesis
  proof (cases ok)
    case False
    with MergeFuncUpdateCgroup_invalid [OF a, of msg sys mergeCondition] v run
    show ?thesis by simp
  next
    case True
    with v have v: "Resource_IsValid (cg_file c) (cg_value c) = (True, msg)" by simp
    show ?thesis
    proof (cases "CgroupFileRead sys (world st) (cg_parentDir c) (cg_file c)")
      case (Inl e)
      from MergeFuncUpdateCgroup_read_failure [OF a v Inl, of mergeCondition] run
      show ?thesis by auto
    next
      case (Inr oldStr)
      obtain mv nm eo where mc: "mergeCondition oldStr (cg_value c) = (mv, nm, eo)"
        by (cases "mergeCondition oldStr (cg_value c)")
      show ?thesis
      proof (cases eo)
        case (Some e)
        with mc have mc': "mergeCondition oldStr (cg_value c) = (mv, nm, Some e)"
          by simp
        from MergeFuncUpdateCgroup_policy_failure
          [where mergeCondition = mergeCondition, OF a v Inr mc'] run
        show ?thesis by auto
      next
        case None
        show ?thesis
        proof (cases nm)
          case False
          with mc None have mc': "mergeCondition oldStr (cg_value c) = (mv, False, None)"
            by simp
          from MergeFuncUpdateCgroup_skip
            [where mergeCondition = mergeCondition, OF a v Inr mc'] run
          show ?thesis by simp
        next
          case True
          obtain werr w where w:
            "CgroupFileWrite sys (world st) (cg_parentDir c) (cg_file c) mv = (werr, w)"
            by (cases "CgroupFileWrite sys (world st) (cg_parentDir c) (cg_file c) mv")
          from True mc None have mc': "mergeCondition oldStr (cg_value c) = (mv, True, None)"
            by simp
          from MergeFuncUpdateCgroup_write
            [where mergeCondition = mergeCondition, OF a v Inr mc' w] run
          have "r' = resource" "werr = Some err" "heap st' = heap st" "world st' = w"
            "trace st' = trace st @
                [Call_CgroupFileRead (cg_parentDir c) (cg_file c),
                 Audit ReasonUpdateCgroups (Resource_Path (cg_file c) (cg_parentDir c))
                   (cg_value c),
                 Call_CgroupFileWrite (cg_parentDir c) (cg_file c) mv]"
            by auto
          with Inr mc' w show ?thesis by auto
        qed
      qed
    qed
  qed
qed

text \<open>
  C8, as amended. Whenever \<^verbatim>\<open>MergeFuncUpdateCgroup\<close> returns an error it returns the
  updater it was given and leaves the heap unchanged. On the three error returns that
  precede the write no write occurs: an invalid pending value returns the "parse new
  value failed" error in the unchanged state, so nothing was read or written; a failed
  read returns the read's error and a failed merge condition returns the condition's
  error, and in both the only call made is the read and the outside world is
  unchanged. The error of either merge condition names the side that did not parse
  (new first, then old). The one remaining error return is a failure of the write
  itself: there the read, the audit entry and the write primitive have been called,
  the error is the one the write primitive returned and the outside world is the one
  it left behind.
\<close>

theorem C8_merge_error_paths:
  assumes "assert_Cgroup st resource = Some (u, c)"
  shows
    "(\<forall>msg. Resource_IsValid (cg_file c) (cg_value c) = (False, msg) \<longrightarrow>
        MergeFuncUpdateCgroup sys resource mergeCondition st
          = Returned ((resource, Some (ParseNewValueFailed msg)), st))
     \<and> (\<forall>msg err. Resource_IsValid (cg_file c) (cg_value c) = (True, msg) \<longrightarrow>
          CgroupFileRead sys (world st) (cg_parentDir c) (cg_file c) = Inl err \<longrightarrow>
          MergeFuncUpdateCgroup sys resource mergeCondition st
            = Returned ((resource, Some err),
                st\<lparr>trace := trace st @ [Call_CgroupFileRead (cg_parentDir c) (cg_file c)]\<rparr>))
     \<and> (\<forall>msg oldStr mergedValue needMerge err.
          Resource_IsValid (cg_file c) (cg_value c) = (True, msg) \<longrightarrow>
          CgroupFileRead sys (world st) (cg_parentDir c) (cg_file c) = Inr oldStr \<longrightarrow>
          mergeCondition oldStr (cg_value c) = (mergedValue, needMerge, Some err) \<longrightarrow>
          MergeFuncUpdateCgroup sys resource mergeCondition st
            = Returned ((resource, Some err),
                st\<lparr>trace := trace st @ [Call_CgroupFileRead (cg_parentDir c) (cg_file c)]\<rparr>))
     \<and> (\<forall>old new mv nm err.
          MergeConditionIfValueIsLarger old new = (mv, nm, Some err) \<longrightarrow>
          (\<exists>e. ParseInt new = Inl e \<and> err = NewValueNotInt64 e)
          \<or> (\<exists>e. ParseInt old = Inl e \<and> err = OldValueNotInt64 e))
     \<and> (\<forall>cp old new mv nm err.
          MergeConditionIfCPUSetIsLooser cp old new = (mv, nm, Some err) \<longrightarrow>
          (\<exists>e. cpuset_Parse cp new = Inl e \<and> err = NewValueNotValidCPUSet e)
          \<or> (\<exists>e. cpuset_Parse cp old = Inl e \<and> err = OldValueNotValidCPUSet e))
     \<and> (\<forall>r' err st'.
          MergeFuncUpdateCgroup sys resource mergeCondition st = Returned ((r', Some err), st') \<longrightarrow>
          r' = resource \<and> heap st' = heap st \<and>
          ((world st' = world st \<and>
              (trace st' = trace st \<or>
               trace st' = trace st @ [Call_CgroupFileRead (cg_parentDir c) (cg_file c)]))
           \<or> (\<exists>oldStr mergedValue w.
                 CgroupFileRead sys (world st) (cg_parentDir c) (cg_file c) = Inr oldStr
               \<and> mergeCondition oldStr (cg_value c) = (mergedValue, True, None)
               \<and> CgroupFileWrite sys (world st) (cg_parentDir c) (cg_file c) mergedValue
                   = (Some err, w)
               \<and> world st' = w
               \<and> trace st' = trace st @
                     [Call_CgroupFileRead (cg_parentDir c) (cg_file c),
                      Audit ReasonUpdateCgroups (Resource_Path (cg_file c) (cg_parentDir c))
                        (cg_value c),
                      Call_CgroupFileWrite (cg_parentDir c) (cg_file c) mergedValue])))"
proof (intro conjI allI impI)
  fix msg
  assume "Resource_IsValid (cg_file c) (cg_value c) = (False, msg)"
  then show "MergeFuncUpdateCgroup sys resource mergeCondition st
          = Returned ((resource, Some (ParseNewValueFailed msg)), st)"
    by (rule MergeFuncUpdateCgroup_invalid [OF assms])
next
  fix msg err
  assume "Resource_IsValid (cg_file c) (cg_value c) = (True, msg)"
    and "CgroupFileRead sys (world st) (cg_parentDir c) (cg_file c) = Inl err"
  then show "MergeFuncUpdateCgroup sys resource mergeCondition st
            = Returned ((resource, Some err),
                st\<lparr>trace := trace st @ [Call_CgroupFileRead (cg_parentDir c) (cg_file c)]\<rparr>)"
    by (rule MergeFuncUpdateCgroup_read_failure [OF assms])
next
  fix msg oldStr mergedValue needMerge err
  assume "Resource_IsValid (cg_file c) (cg_value c) = (True, msg)"
    and "CgroupFileRead sys (world st) (cg_parentDir c) (cg_file c) = Inr oldStr"
    and "mergeCondition oldStr (cg_value c) = (mergedValue, needMerge, Some err)"
  then show "MergeFuncUpdateCgroup sys resource mergeCondition st
            = Returned ((resource, Some err),
                st\<lparr>trace := trace st @ [Call_CgroupFileRead (cg_parentDir c) (cg_file c)]\<rparr>)"
    by (rule MergeFuncUpdateCgroup_policy_failure [where mergeCondition = mergeCondition, OF assms])
next
  fix old new mv nm err
  assume "MergeConditionIfValueIsLarger old new = (mv, nm, Some err)"
  then show "(\<exists>e. ParseInt new = Inl e \<and> err = NewValueNotInt64 e)
          \<or> (\<exists>e. ParseInt old = Inl e \<and> err = OldValueNotInt64 e)"
    by (rule MergeConditionIfValueIsLarger_error)
next
  fix cp old new mv nm err
  assume "MergeConditionIfCPUSetIsLooser cp old new = (mv, nm, Some err)"
  then show "(\<exists>e. cpuset_Parse cp new = Inl e \<and> err = NewValueNotValidCPUSet e)
          \<or> (\<exists>e. cpuset_Parse cp old = Inl e \<and> err = OldValueNotValidCPUSet e)"
    by (rule MergeConditionIfCPUSetIsLooser_error)
next
  fix r' err st'
  assume run: "MergeFuncUpdateCgroup sys resource mergeCondition st = Returned ((r', Some err), st')"
  note all = MergeFuncUpdateCgroup_error_returns_original [OF assms run]
  from all show "r' = resource" by (rule conjunct1)
  from all show "heap st' = heap st" by (rule conjunct2 [THEN conjunct1])
  from all show "(world st' = world st \<and>
              (trace st' = trace st \<or>
               trace st' = trace st @ [Call_CgroupFileRead (cg_parentDir c) (cg_file c)]))
           \<or> (\<exists>oldStr mergedValue w.
                 CgroupFileRead sys (world st) (cg_parentDir c) (cg_file c) = Inr oldStr
               \<and> mergeCondition oldStr (cg_value c) = (mergedValue, True, None)
               \<and> CgroupFileWrite sys (world st) (cg_parentDir c) (cg_file c) mergedValue
                   = (Some err, w)
               \<and> world st' = w
               \<and> trace st' = trace st @
                     [Call_CgroupFileRead (cg_parentDir c) (cg_file c),
                      Audit ReasonUpdateCgroups (Resource_Path (cg_file c) (cg_parentDir c))
                        (cg_value c),
                      Call_CgroupFileWrite (cg_parentDir c) (cg_file c) mergedValue])"
    by (rule conjunct2 [THEN conjunct2])
qed

lemma ex_run_read_only:
  "MergeFuncUpdateCgroup ro_sysutil (Some 1) MergeConditionIfValueIsLarger ex_merge_state
     = Returned ((Some 1, Some (SysError ''read-only file system'')),
         ex_merge_state\<lparr>world := ex_files,
           trace := [Call_CgroupFileRead ''kubepods'' (mem_resource ''memory.min''),
                     Audit ''UpdateCgroups'' ''kubepods/memory.min'' ''200'',
                     Call_CgroupFileWrite ''kubepods'' (mem_resource ''memory.min'') ''200'']\<rparr>)"
  using MergeFuncUpdateCgroup_write
    [where mergeCondition = MergeConditionIfValueIsLarger and msg = "[]"
       and oldStr = "''100''" and mergedValue = "''200''" and sys = ro_sysutil
       and werr = "Some (SysError ''read-only file system'')" and w = ex_files,
     OF ex_assert(2)]
  by (simp add: ex_simps ReasonUpdateCgroups_def)

theorem C8_merge_error_paths_witness:
  "assert_Cgroup ex_merge_state (Some 4)
     = Some (4, ex_mergeable ''memory.min'' ''kubepods'' [] MergeConditionIfValueIsLarger)
   \<and> Resource_IsValid (mem_resource ''memory.min'') [] = (False, ''empty value'')
   \<and> MergeFuncUpdateCgroup mem_sysutil (Some 4) MergeConditionIfValueIsLarger ex_merge_state
       = Returned ((Some 4, Some (ParseNewValueFailed ''empty value'')), ex_merge_state)
   \<and> assert_Cgroup ex_merge_state (Some 5)
     = Some (5, ex_mergeable ''memory.min'' ''besteffort'' ''50'' MergeConditionIfValueIsLarger)
   \<and> CgroupFileRead mem_sysutil ex_files ''besteffort'' (mem_resource ''memory.min'')
       = Inl (SysError ''no such file'')
   \<and> MergeFuncUpdateCgroup mem_sysutil (Some 5) MergeConditionIfValueIsLarger ex_merge_state
       = Returned ((Some 5, Some (SysError ''no such file'')),
           ex_merge_state\<lparr>trace :=
             [Call_CgroupFileRead ''besteffort'' (mem_resource ''memory.min'')]\<rparr>)
   \<and> assert_Cgroup ex_merge_state (Some 6)
     = Some (6, ex_mergeable ''memory.min'' ''kubepods'' ''max'' MergeConditionIfValueIsLarger)
   \<and> MergeConditionIfValueIsLarger ''100'' ''max''
       = (''max'', False, Some (NewValueNotInt64 ErrSyntax))
   \<and> MergeFuncUpdateCgroup mem_sysutil (Some 6) MergeConditionIfValueIsLarger ex_merge_state
       = Returned ((Some 6, Some (NewValueNotInt64 ErrSyntax)),
           ex_merge_state\<lparr>trace :=
             [Call_CgroupFileRead ''kubepods'' (mem_resource ''memory.min'')]\<rparr>)
   \<and> ((\<exists>e. ParseInt ''max'' = Inl e \<and> NewValueNotInt64 ErrSyntax = NewValueNotInt64 e)
        \<or> (\<exists>e. ParseInt ''100'' = Inl e \<and> NewValueNotInt64 ErrSyntax = OldValueNotInt64 e))
   \<and> MergeFuncUpdateCgroup ro_sysutil (Some 1) MergeConditionIfValueIsLarger ex_merge_state
       = Returned ((Some 1, Some (SysError ''read-only file system'')),
           ex_merge_state\<lparr>world := ex_files,
             trace := [Call_CgroupFileRead ''kubepods'' (mem_resource ''memory.min''),
                       Audit ''UpdateCgroups'' ''kubepods/memory.min'' ''200'',
                       Call_CgroupFileWrite ''kubepods'' (mem_resource ''memory.min'') ''200'']\<rparr>)
   \<and> CgroupFileWrite ro_sysutil ex_files ''kubepods'' (mem_resource ''memory.min'') ''200''
       = (Some (SysError ''read-only file system''), ex_files)"
proof -
  note t4 = C8_merge_error_paths
    [OF ex_assert(5), of mem_sysutil MergeConditionIfValueIsLarger,
     THEN conjunct1, rule_format, of "''empty value''"]
  note t5 = C8_merge_error_paths
    [OF ex_assert(6), of mem_sysutil MergeConditionIfValueIsLarger,
     THEN conjunct2, THEN conjunct1, rule_format, of "[]" "SysError ''no such file''"]
  note t6 = C8_merge_error_paths
    [OF ex_assert(7), of mem_sysutil MergeConditionIfValueIsLarger,
     THEN conjunct2, THEN conjunct2, THEN conjunct1, rule_format,
     of "[]" "''100''" "''max''" False "NewValueNotInt64 ErrSyntax"]
  note t7 = C8_merge_error_paths
    [OF ex_assert(7), of mem_sysutil MergeConditionIfValueIsLarger,
     THEN conjunct2, THEN conjunct2, THEN conjunct2, THEN conjunct1, rule_format,
     OF ex_policy(3)]
  note t8 = C8_merge_error_paths
    [OF ex_assert(2), of ro_sysutil MergeConditionIfValueIsLarger,
     THEN conjunct2, THEN conjunct2, THEN conjunct2, THEN conjunct2, THEN conjunct2,
     rule_format, OF ex_run_read_only]
  from t4 have 4:
    "MergeFuncUpdateCgroup mem_sysutil (Some 4) MergeConditionIfValueIsLarger ex_merge_state
       = Returned ((Some 4, Some (ParseNewValueFailed ''empty value'')), ex_merge_state)"
    by (simp add: ex_simps)
  from t5 have 5:
    "MergeFuncUpdateCgroup mem_sysutil (Some 5) MergeConditionIfValueIsLarger ex_merge_state
       = Returned ((Some 5, Some (SysError ''no such file'')),
           ex_merge_state\<lparr>trace :=
             [Call_CgroupFileRead ''besteffort'' (mem_resource ''memory.min'')]\<rparr>)"
    by (simp add: ex_simps)
  from t6 have 6:
    "MergeFuncUpdateCgroup mem_sysutil (Some 6) MergeConditionIfValueIsLarger ex_merge_state
       = Returned ((Some 6, Some (NewValueNotInt64 ErrSyntax)),
           ex_merge_state\<lparr>trace :=
             [Call_CgroupFileRead ''kubepods'' (mem_resource ''memory.min'')]\<rparr>)"
    by (simp add: ex_simps)
  from t8 have 8:
    "CgroupFileWrite ro_sysutil ex_files ''kubepods'' (mem_resource ''memory.min'') ''200''
       = (Some (SysError ''read-only file system''), ex_files)"
    by (simp add: ex_simps)
  from 4 5 6 t7 8 ex_run_read_only show ?thesis
    by (simp add: ex_simps ex_assert)
qed

text \<open>
  C8 as the specification states it, with no write on every error path, does not hold:
  the updater for \<^verbatim>\<open>memory.min\<close> requesting 200 over a stored 100 passes validation,
  the read and the merge condition, so \<^verbatim>\<open>MergeFuncUpdateCgroup\<close> calls the write
  primitive; on a read-only file system that call fails, and the function returns the
  write's error after the write has been attempted.
\<close>

theorem C8_error_after_write_counterexample:
  "MergeFuncUpdateCgroup ro_sysutil (Some 1) MergeConditionIfValueIsLarger ex_merge_state
     = Returned ((Some 1, Some (SysError ''read-only file system'')),
         ex_merge_state\<lparr>world := ex_files,
           trace := [Call_CgroupFileRead ''kubepods'' (mem_resource ''memory.min''),
                     Audit ''UpdateCgroups'' ''kubepods/memory.min'' ''200'',
                     Call_CgroupFileWrite ''kubepods'' (mem_resource ''memory.min'') ''200'']\<rparr>)
   \<and> Call_CgroupFileWrite ''kubepods'' (mem_resource ''memory.min'') ''200''
       \<in> set (trace (ex_merge_state\<lparr>world := ex_files,
           trace := [Call_CgroupFileRead ''kubepods'' (mem_resource ''memory.min''),
                     Audit ''UpdateCgroups'' ''kubepods/memory.min'' ''200'',
                     Call_CgroupFileWrite ''kubepods'' (mem_resource ''memory.min'') ''200'']\<rparr>))"
  using ex_run_read_only by simp

subsection \<open>The CPU list instance round-trips\<close>

lemma digit_of_digit_char: "d < 10 \<Longrightarrow> digit_of (digit_char d) = Some d"
  by (simp add: digit_of_def digit_char_def)

lemma digit_char_not_sep:
  "d < 10 \<Longrightarrow> digit_char d \<noteq> CHR ''-''" "d < 10 \<Longrightarrow> digit_char d \<noteq> CHR '',''"
  by (auto simp: digit_char_def dest!: arg_cong [where f = "of_char :: char \<Rightarrow> nat"])

lemma Itoa_digits: "c \<in> set (Itoa n) \<Longrightarrow> \<exists>d<10. c = digit_char d"
proof (induction n rule: Itoa.induct)
  case (1 n)
  show ?case
  proof (cases "n < 10")
    case True
    with "1.prems" show ?thesis by (subst (asm) Itoa.simps) auto
  next
    case False
    with "1.prems" have "c \<in> set (Itoa (n div 10)) \<or> c = digit_char (n mod 10)"
      by (subst (asm) Itoa.simps) auto
    with "1.IH" False show ?thesis by (auto intro: exI [of _ "n mod 10"])
  qed
qed

lemma Itoa_no_sep: "CHR ''-'' \<notin> set (Itoa n)" "CHR '','' \<notin> set (Itoa n)"
  using digit_char_not_sep digit_char_not_sep [THEN not_sym] by (auto dest!: Itoa_digits)

lemma Itoa_not_Nil: "Itoa n \<noteq> []"
  by (subst Itoa.simps) simp

lemma Atoi_loop_append:
  "Atoi_loop (xs @ ys) n = (case Atoi_loop xs n of None \<Rightarrow> None | Some m \<Rightarrow> Atoi_loop ys m)"
  by (induction xs arbitrary: n) (auto split: option.splits)

lemma Atoi_loop_Itoa: "Atoi_loop (Itoa n) 0 = Some n"
proof (induction n rule: Itoa.induct)
  case (1 n)
  show ?case
  proof (cases "n < 10")
    case True
    then show ?thesis by (subst Itoa.simps) (simp add: digit_of_digit_char)
  next
    case False
    with "1.IH" show ?thesis
      by (subst Itoa.simps) (simp add: Atoi_loop_append digit_of_digit_char)
  qed
qed

lemma Atoi_Itoa: "Atoi (Itoa n) = Some n"
  by (simp add: Atoi_def Itoa_not_Nil Atoi_loop_Itoa)

lemma parse_range_render_range:
  assumes "a \<le> b"
  shows "parse_range (render_range (a, b)) = Inr {a..b}"
proof (cases "a = b")
  case True
  have d: "dropWhile (\<lambda>c. c \<noteq> CHR ''-'') (Itoa n) = []" for n
    using Itoa_no_sep(1) [of n] by auto
  from True show ?thesis
    by (simp add: parse_range_def render_range_def Atoi_Itoa d)
next
  case False
  have d: "dropWhile (\<lambda>c. c \<noteq> CHR ''-'') (Itoa a @ CHR ''-'' # Itoa b) = CHR ''-'' # Itoa b"
    using Itoa_no_sep(1) [of a] by (subst dropWhile_append2) auto
  have t: "takeWhile (\<lambda>c. c \<noteq> CHR ''-'') (Itoa a @ CHR ''-'' # Itoa b) = Itoa a"
    using Itoa_no_sep(1) [of a] by (subst takeWhile_append2) auto
  from False assms show ?thesis
    by (simp add: parse_range_def render_range_def d t Atoi_Itoa)
qed

lemma render_range_no_comma: "CHR '','' \<notin> set (render_range r)"
  using Itoa_no_sep(2) by (auto simp: render_range_def)

lemma render_range_not_Nil: "render_range r \<noteq> []"
  by (simp add: render_range_def Itoa_not_Nil)

lemma Split_no_sep: "sep \<notin> set p \<Longrightarrow> Split sep p = [p]"
  by (induction p) auto

lemma Split_append_sep: "sep \<notin> set p \<Longrightarrow> Split sep (p @ sep # rest) = p # Split sep rest"
  by (induction p) auto

lemma Split_Join:
  "ps \<noteq> [] \<Longrightarrow> \<forall>p\<in>set ps. CHR '','' \<notin> set p \<Longrightarrow> Split (CHR '','') (Join ps) = ps"
  by (induction ps rule: Join.induct) (auto simp: Split_no_sep Split_append_sep)

lemma Join_Nil_iff: "\<forall>p\<in>set ps. p \<noteq> [] \<Longrightarrow> Join ps = [] \<longleftrightarrow> ps = []"
  by (induction ps rule: Join.induct) auto

lemma parse_ranges_render:
  "\<forall>(a, b)\<in>set rs. a \<le> b \<Longrightarrow>
   parse_ranges (map render_range rs) = Inr (\<Union>(a, b)\<in>set rs. {a..b})"
  by (induction rs) (auto simp: parse_range_render_range)

lemma to_ranges_sound:
  "(\<forall>(a, b)\<in>set (to_ranges xs). a \<le> b) \<and> (\<Union>(a, b)\<in>set (to_ranges xs). {a..b}) = set xs"
proof (induction xs)
  case Nil
  then show ?case by simp
next
  case (Cons x xs)
  show ?case
  proof (cases "to_ranges xs")
    case Nil
    with Cons show ?thesis by auto
  next
    case (Cons r rs)
    obtain a b where r: "r = (a, b)" by (cases r)
    from Cons.IH Cons r have ab: "a \<le> b"
      and rest: "\<forall>(a, b)\<in>set rs. a \<le> b"
      and un: "{a..b} \<union> (\<Union>(a, b)\<in>set rs. {a..b}) = set xs"
      by auto
    show ?thesis
    proof (cases "a = Suc x")
      case True
      with ab have "{x..b} = insert x {a..b}" by auto
      with True Cons r ab rest un show ?thesis by auto
    next
      case False
      with Cons r ab rest un show ?thesis by auto
    qed
  qed
qed

lemma cpulist_roundtrip:
  assumes "finite S"
  shows "cpulist_Parse (cpulist_String S) = Inr S"
proof -
  let ?rs = "to_ranges (sorted_list_of_set S)"
  let ?ps = "map render_range ?rs"
  from to_ranges_sound [of "sorted_list_of_set S"] assms
  have le: "\<forall>(a, b)\<in>set ?rs. a \<le> b" and un: "(\<Union>(a, b)\<in>set ?rs. {a..b}) = S"
    by auto
  show ?thesis
  proof (cases "?rs = []")
    case True
    with un have "S = {}" by auto
    then show ?thesis by (simp add: cpulist_Parse_def cpulist_String_def)
  next
    case False
    then have ne: "?ps \<noteq> []" by simp
    have nonempty: "\<forall>p\<in>set ?ps. p \<noteq> []"
      by (auto simp: render_range_not_Nil)
    have nocomma: "\<forall>p\<in>set ?ps. CHR '','' \<notin> set p"
      by (auto simp: render_range_no_comma)
    from ne nonempty have j: "Join ?ps \<noteq> []"
      by (simp add: Join_Nil_iff)
    have "cpulist_Parse (cpulist_String S) = parse_ranges (Split (CHR '','') (Join ?ps))"
      using j by (simp add: cpulist_Parse_def cpulist_String_def)
    also have "\<dots> = parse_ranges ?ps"
      by (simp only: Split_Join [OF ne nocomma])
    also have "\<dots> = Inr S"
      using parse_ranges_render [OF le] un by simp
    finally show ?thesis .
  qed
qed

lemma parse_range_finite: "parse_range r = Inr S \<Longrightarrow> finite S"
  by (auto simp: parse_range_def split: list.splits option.splits if_splits)

lemma parse_ranges_finite: "parse_ranges rs = Inr S \<Longrightarrow> finite S"
  by (induction rs arbitrary: S) (auto split: sum.splits dest: parse_range_finite)

lemma cpulist_Parse_finite: "cpulist_Parse s = Inr S \<Longrightarrow> finite S"
  by (auto simp: cpulist_Parse_def split: if_splits dest: parse_ranges_finite)

lemma cpulist_union_roundtrip:
  assumes "cpuset_Parse cpulist s1 = Inr A" and "cpuset_Parse cpulist s2 = Inr B"
  shows "cpuset_Parse cpulist (cpuset_String cpulist (A \<union> B)) = Inr (A \<union> B)"
  using assms
  by (simp add: cpulist_def cpulist_roundtrip cpulist_Parse_finite)

lemma cpulist_Parse_0_5: "cpuset_Parse cpulist ''0-5'' = Inr {0..5}"
  by (simp add: cpulist_def cpulist_Parse_def parse_range_def Atoi_def digit_of_def)

lemma ex_policy_0_5:
  "MergeConditionIfCPUSetIsLooser cpulist ''0-5'' ''1-2'' = (''1-2'', False, None)"
  by (simp add: MergeConditionIfCPUSetIsLooser_def cpulist_Parse_0_5 cpulist_Parse_1_2
        IsSubsetOf_def)

subsection \<open>The stored value never decreases\<close>

lemma MergeFuncUpdateCgroup_success_cases:
  assumes a: "assert_Cgroup st resource = Some (u, c)"
    and rd: "CgroupFileRead sys (world st) (cg_parentDir c) (cg_file c) = Inr oldStr"
    and run: "MergeFuncUpdateCgroup sys resource mergeCondition st = Returned ((r', None), st')"
  obtains (skip) mv where "mergeCondition oldStr (cg_value c) = (mv, False, None)"
      and "world st' = world st"
      and "heap st' = heap st @ [CgroupObj (c\<lparr>cg_value := oldStr\<rparr>)]"
  | (written) mv where "mergeCondition oldStr (cg_value c) = (mv, True, None)"
      and "CgroupFileWrite sys (world st) (cg_parentDir c) (cg_file c) mv = (None, world st')"
      and "heap st' = heap st"
proof -
  obtain ok msg where v: "Resource_IsValid (cg_file c) (cg_value c) = (ok, msg)"
    by (cases "Resource_IsValid (cg_file c) (cg_value c)")
  have ok
  proof (rule ccontr)
    assume "\<not> ok"
    with MergeFuncUpdateCgroup_invalid [OF a, of msg sys mergeCondition] v run
    show False by simp
  qed
  with v have v: "Resource_IsValid (cg_file c) (cg_value c) = (True, msg)" by simp
  obtain mv nm eo where mc: "mergeCondition oldStr (cg_value c) = (mv, nm, eo)"
    by (cases "mergeCondition oldStr (cg_value c)")
  have eo: "eo = None"
  proof (cases eo)
    case (Some e)
    with mc have "mergeCondition oldStr (cg_value c) = (mv, nm, Some e)" by simp
    from MergeFuncUpdateCgroup_policy_failure
      [where mergeCondition = mergeCondition, OF a v rd this] run
    show ?thesis by simp
  qed simp
  show thesis
  proof (cases nm)
    case False
    with mc eo have mc': "mergeCondition oldStr (cg_value c) = (mv, False, None)" by simp
    from MergeFuncUpdateCgroup_skip [where mergeCondition = mergeCondition, OF a v rd mc'] run
    have "world st' = world st" "heap st' = heap st @ [CgroupObj (c\<lparr>cg_value := oldStr\<rparr>)]"
      by auto
    with mc' show thesis by (rule skip)
  next
    case True
    with mc eo have mc': "mergeCondition oldStr (cg_value c) = (mv, True, None)" by simp
    obtain werr w where w:
      "CgroupFileWrite sys (world st) (cg_parentDir c) (cg_file c) mv = (werr, w)"
      by (cases "CgroupFileWrite sys (world st) (cg_parentDir c) (cg_file c) mv")
    from MergeFuncUpdateCgroup_write [where mergeCondition = mergeCondition, OF a v rd mc' w] run
    have "werr = None" "world st' = w" "heap st' = heap st"
      by auto
    with w mc' show thesis by (intro written) simp_all
  qed
qed

lemma assert_Cgroup_heap_append:
  "assert_Cgroup st r = Some (u, c) \<Longrightarrow> heap st' = heap st @ xs \<Longrightarrow>
   assert_Cgroup st' r = Some (u, c)"
  by (auto simp: assert_Cgroup_iff lookup_def nth_append split: if_splits)

lemma merge_scalar_step:
  assumes a: "assert_Cgroup st resource = Some (u, c)"
    and rd: "CgroupFileRead sys (world st) (cg_parentDir c) (cg_file c) = Inr oldStr"
    and old: "ParseInt oldStr = Inr old"
    and run: "MergeFuncUpdateCgroup sys resource MergeConditionIfValueIsLarger st
                = Returned ((r', None), st')"
    and law: "\<forall>w v w'. CgroupFileWrite sys w (cg_parentDir c) (cg_file c) v = (None, w') \<longrightarrow>
                CgroupFileRead sys w' (cg_parentDir c) (cg_file c) = Inr v"
  shows "\<exists>new stored. ParseInt (cg_value c) = Inr new
           \<and> CgroupFileRead sys (world st') (cg_parentDir c) (cg_file c) = Inr stored
           \<and> ParseInt stored = Inr (max old new)"
    and "\<exists>xs. heap st' = heap st @ xs"
proof -
  from a rd run
  have "(\<exists>new stored. ParseInt (cg_value c) = Inr new
           \<and> CgroupFileRead sys (world st') (cg_parentDir c) (cg_file c) = Inr stored
           \<and> ParseInt stored = Inr (max old new)) \<and> (\<exists>xs. heap st' = heap st @ xs)"
  proof (cases rule: MergeFuncUpdateCgroup_success_cases)
    case (skip mv)
    from skip(1) old obtain new where "ParseInt (cg_value c) = Inr new" "\<not> new > old"
      by (auto simp: MergeConditionIfValueIsLarger_def split: sum.splits)
    with skip rd old show ?thesis by (simp add: max_def)
  next
    case (written mv)
    from written(1) old obtain new where "ParseInt (cg_value c) = Inr new" "new > old"
      "mv = cg_value c"
      by (auto simp: MergeConditionIfValueIsLarger_def split: sum.splits)
    moreover from law written(2)
    have "CgroupFileRead sys (world st') (cg_parentDir c) (cg_file c) = Inr mv"
      by blast
    ultimately show ?thesis using written(3) by (simp add: max_def)
  qed
  then show "\<exists>new stored. ParseInt (cg_value c) = Inr new
           \<and> CgroupFileRead sys (world st') (cg_parentDir c) (cg_file c) = Inr stored
           \<and> ParseInt stored = Inr (max old new)"
    and "\<exists>xs. heap st' = heap st @ xs"
    by blast+
qed

lemma merge_set_step:
  assumes a: "assert_Cgroup st resource = Some (u, c)"
    and rd: "CgroupFileRead sys (world st) (cg_parentDir c) (cg_file c) = Inr oldStr"
    and old: "cpuset_Parse cp oldStr = Inr old"
    and run: "MergeFuncUpdateCgroup sys resource (MergeConditionIfCPUSetIsLooser cp) st
                = Returned ((r', None), st')"
    and law: "\<forall>w v w'. CgroupFileWrite sys w (cg_parentDir c) (cg_file c) v = (None, w') \<longrightarrow>
                CgroupFileRead sys w' (cg_parentDir c) (cg_file c) = Inr v"
    and rt: "\<forall>new. cpuset_Parse cp (cg_value c) = Inr new \<longrightarrow>
                cpuset_Parse cp (cpuset_String cp (old \<union> new)) = Inr (old \<union> new)"
  shows "\<exists>new stored. cpuset_Parse cp (cg_value c) = Inr new
           \<and> CgroupFileRead sys (world st') (cg_parentDir c) (cg_file c) = Inr stored
           \<and> cpuset_Parse cp stored = Inr (old \<union> new)"
    and "\<exists>xs. heap st' = heap st @ xs"
proof -
  from a rd run
  have "(\<exists>new stored. cpuset_Parse cp (cg_value c) = Inr new
           \<and> CgroupFileRead sys (world st') (cg_parentDir c) (cg_file c) = Inr stored
           \<and> cpuset_Parse cp stored = Inr (old \<union> new)) \<and> (\<exists>xs. heap st' = heap st @ xs)"
  proof (cases rule: MergeFuncUpdateCgroup_success_cases)
    case (skip mv)
    from skip(1) old obtain new where new: "cpuset_Parse cp (cg_value c) = Inr new" "new \<subseteq> old"
      by (auto simp: MergeConditionIfCPUSetIsLooser_def IsSubsetOf_def
          split: sum.splits if_splits)
    then have "old \<union> new = old" by auto
    with skip rd old new show ?thesis by simp
  next
    case (written mv)
    from written(1) old obtain new where new: "cpuset_Parse cp (cg_value c) = Inr new"
      "mv = cpuset_String cp (old \<union> new)"
      by (auto simp: MergeConditionIfCPUSetIsLooser_def IsSubsetOf_def Union_cpuset_def
          Un_commute split: sum.splits if_splits)
    moreover from law written(2)
    have "CgroupFileRead sys (world st') (cg_parentDir c) (cg_file c) = Inr mv"
      by blast
    moreover from rt new(1)
    have "cpuset_Parse cp (cpuset_String cp (old \<union> new)) = Inr (old \<union> new)"
      by blast
    ultimately show ?thesis using written(3) by simp
  qed
  then show "\<exists>new stored. cpuset_Parse cp (cg_value c) = Inr new
           \<and> CgroupFileRead sys (world st') (cg_parentDir c) (cg_file c) = Inr stored
           \<and> cpuset_Parse cp stored = Inr (old \<union> new)"
    and "\<exists>xs. heap st' = heap st @ xs"
    by blast+
qed

lemma merge_all_scalar:
  assumes "\<forall>r\<in>set rs. \<exists>u c. assert_Cgroup st r = Some (u, c) \<and> cg_parentDir c = d \<and> cg_file c = f"
    and "CgroupFileRead sys (world st) d f = Inr oldStr"
    and "ParseInt oldStr = Inr old"
    and "merge_all sys MergeConditionIfValueIsLarger rs st = Some st'"
    and law: "\<forall>w v w'. CgroupFileWrite sys w d f v = (None, w') \<longrightarrow>
                CgroupFileRead sys w' d f = Inr v"
  shows "\<exists>stored v. CgroupFileRead sys (world st') d f = Inr stored
           \<and> ParseInt stored = Inr v \<and> old \<le> v"
  using assms(1-4)
proof (induction rs arbitrary: st oldStr old)
  case Nil
  then show ?case by auto
next
  case (Cons r rs)
  from Cons.prems(1) obtain u c where a: "assert_Cgroup st r = Some (u, c)"
    and d: "cg_parentDir c = d" "cg_file c = f"
    by auto
  from Cons.prems(4) obtain r' st1 where
    run: "MergeFuncUpdateCgroup sys r MergeConditionIfValueIsLarger st = Returned ((r', None), st1)"
    and rest: "merge_all sys MergeConditionIfValueIsLarger rs st1 = Some st'"
    by (auto split: res.splits option.splits)
  from merge_scalar_step [OF a _ Cons.prems(3) run] Cons.prems(2) law d
  obtain new stored xs where
    1: "CgroupFileRead sys (world st1) d f = Inr stored" "ParseInt stored = Inr (max old new)"
      "heap st1 = heap st @ xs"
    by auto
  have "\<forall>r\<in>set rs. \<exists>u c. assert_Cgroup st1 r = Some (u, c) \<and> cg_parentDir c = d \<and> cg_file c = f"
  proof
    fix r2
    assume "r2 \<in> set rs"
    with Cons.prems(1) obtain u2 c2 where "assert_Cgroup st r2 = Some (u2, c2)"
      and "cg_parentDir c2 = d" "cg_file c2 = f"
      by auto
    with assert_Cgroup_heap_append [OF _ 1(3)]
    show "\<exists>u c. assert_Cgroup st1 r2 = Some (u, c) \<and> cg_parentDir c = d \<and> cg_file c = f"
      by blast
  qed
  from Cons.IH [OF this 1(1) 1(2) rest]
  show ?case by auto
qed

lemma merge_all_set:
  assumes "\<forall>r\<in>set rs. \<exists>u c. assert_Cgroup st r = Some (u, c) \<and> cg_parentDir c = d \<and> cg_file c = f"
    and "CgroupFileRead sys (world st) d f = Inr oldStr"
    and "cpuset_Parse cp oldStr = Inr old"
    and "merge_all sys (MergeConditionIfCPUSetIsLooser cp) rs st = Some st'"
    and law: "\<forall>w v w'. CgroupFileWrite sys w d f v = (None, w') \<longrightarrow>
                CgroupFileRead sys w' d f = Inr v"
    and rt: "\<forall>s1 s2 A B. cpuset_Parse cp s1 = Inr A \<longrightarrow> cpuset_Parse cp s2 = Inr B \<longrightarrow>
                cpuset_Parse cp (cpuset_String cp (A \<union> B)) = Inr (A \<union> B)"
  shows "\<exists>stored S. CgroupFileRead sys (world st') d f = Inr stored
           \<and> cpuset_Parse cp stored = Inr S \<and> old \<subseteq> S"
  using assms(1-4)
proof (induction rs arbitrary: st oldStr old)
  case Nil
  then show ?case by auto
next
  case (Cons r rs)
  from Cons.prems(1) obtain u c where a: "assert_Cgroup st r = Some (u, c)"
    and d: "cg_parentDir c = d" "cg_file c = f"
    by auto
  from Cons.prems(4) obtain r' st1 where
    run: "MergeFuncUpdateCgroup sys r (MergeConditionIfCPUSetIsLooser cp) st
            = Returned ((r', None), st1)"
    and rest: "merge_all sys (MergeConditionIfCPUSetIsLooser cp) rs st1 = Some st'"
    by (auto split: res.splits option.splits)
  have rt': "\<forall>new. cpuset_Parse cp (cg_value c) = Inr new \<longrightarrow>
                cpuset_Parse cp (cpuset_String cp (old \<union> new)) = Inr (old \<union> new)"
    using rt Cons.prems(3) by blast
  from merge_set_step [OF a _ Cons.prems(3) run _ rt'] Cons.prems(2) law d
  obtain new stored xs where
    1: "CgroupFileRead sys (world st1) d f = Inr stored"
      "cpuset_Parse cp stored = Inr (old \<union> new)" "heap st1 = heap st @ xs"
    by auto
  have "\<forall>r\<in>set rs. \<exists>u c. assert_Cgroup st1 r = Some (u, c) \<and> cg_parentDir c = d \<and> cg_file c = f"
  proof
    fix r2
    assume "r2 \<in> set rs"
    with Cons.prems(1) obtain u2 c2 where "assert_Cgroup st r2 = Some (u2, c2)"
      and "cg_parentDir c2 = d" "cg_file c2 = f"
      by auto
    with assert_Cgroup_heap_append [OF _ 1(3)]
    show "\<exists>u c. assert_Cgroup st1 r2 = Some (u, c) \<and> cg_parentDir c = d \<and> cg_file c = f"
      by blast
  qed
  from Cons.IH [OF this 1(1) 1(2) rest]
  show ?case by auto
qed

lemma mem_sysutil_read_after_write:
  "\<forall>w v w'. CgroupFileWrite mem_sysutil w d f v = (None, w') \<longrightarrow>
     CgroupFileRead mem_sysutil w' d f = Inr v"
  by (auto simp: mem_sysutil_def mem_write_def split: option.splits)

lemmas merge_eval = method_eval heap_eval mem_eval ex_merge_state_def ex_mergeable_def
  ex_files_def Let_def

lemma ex_run_scalar:
  "MergeFuncUpdateCgroup mem_sysutil (Some 1) MergeConditionIfValueIsLarger ex_merge_state
     = Returned ((Some 1, None),
         ex_merge_state\<lparr>world := ex_files(''kubepods/memory.min'' \<mapsto> ''200''),
           trace := [Call_CgroupFileRead ''kubepods'' (mem_resource ''memory.min''),
                     Audit ''UpdateCgroups'' ''kubepods/memory.min'' ''200'',
                     Call_CgroupFileWrite ''kubepods'' (mem_resource ''memory.min'') ''200'']\<rparr>)"
  using MergeFuncUpdateCgroup_write
    [where mergeCondition = MergeConditionIfValueIsLarger and msg = "[]"
       and oldStr = "''100''" and mergedValue = "''200''" and sys = mem_sysutil
       and werr = None and w = "ex_files(''kubepods/memory.min'' \<mapsto> ''200'')",
     OF ex_assert(2)]
  by (simp add: ex_simps ReasonUpdateCgroups_def)

lemma ex_run_set:
  "MergeFuncUpdateCgroup mem_sysutil (Some 3) (MergeConditionIfCPUSetIsLooser cpulist)
       ex_merge_state
     = Returned ((Some 3, None),
         ex_merge_state\<lparr>world := ex_files(''kubepods/cpuset.cpus'' \<mapsto> ''0-5''),
           trace := [Call_CgroupFileRead ''kubepods'' (mem_resource ''cpuset.cpus''),
                     Audit ''UpdateCgroups'' ''kubepods/cpuset.cpus'' ''4-5'',
                     Call_CgroupFileWrite ''kubepods'' (mem_resource ''cpuset.cpus'') ''0-5'']\<rparr>)"
  using MergeFuncUpdateCgroup_write
    [where mergeCondition = "MergeConditionIfCPUSetIsLooser cpulist" and msg = "[]"
       and oldStr = "''0-3''" and mergedValue = "''0-5''" and sys = mem_sysutil
       and werr = None and w = "ex_files(''kubepods/cpuset.cpus'' \<mapsto> ''0-5'')",
     OF ex_assert(4)]
  by (simp add: ex_simps ReasonUpdateCgroups_def)

lemma ex_merge_all_scalar:
  "merge_all mem_sysutil MergeConditionIfValueIsLarger [Some 0, Some 1, Some 0] ex_merge_state
     = Some (ex_merge_state
         \<lparr>heap := heap ex_merge_state @
            [CgroupObj (ex_mergeable ''memory.min'' ''kubepods'' ''100''
                          MergeConditionIfValueIsLarger),
             CgroupObj (ex_mergeable ''memory.min'' ''kubepods'' ''200''
                          MergeConditionIfValueIsLarger)],
          world := ex_files(''kubepods/memory.min'' \<mapsto> ''200''),
          trace := [Call_CgroupFileRead ''kubepods'' (mem_resource ''memory.min''),
                    Call_CgroupFileRead ''kubepods'' (mem_resource ''memory.min''),
                    Audit ''UpdateCgroups'' ''kubepods/memory.min'' ''200'',
                    Call_CgroupFileWrite ''kubepods'' (mem_resource ''memory.min'') ''200'',
                    Call_CgroupFileRead ''kubepods'' (mem_resource ''memory.min'')]\<rparr>)"
  by (simp add: merge_eval MergeConditionIfValueIsLarger_def ParseInt_eval)

lemma ex_merge_all_set:
  "merge_all mem_sysutil (MergeConditionIfCPUSetIsLooser cpulist) [Some 2, Some 3, Some 2]
       ex_merge_state
     = Some (ex_merge_state
         \<lparr>heap := heap ex_merge_state @
            [CgroupObj (ex_mergeable ''cpuset.cpus'' ''kubepods'' ''0-3''
                          (MergeConditionIfCPUSetIsLooser cpulist)),
             CgroupObj (ex_mergeable ''cpuset.cpus'' ''kubepods'' ''0-5''
                          (MergeConditionIfCPUSetIsLooser cpulist))],
          world := ex_files(''kubepods/cpuset.cpus'' \<mapsto> ''0-5''),
          trace := [Call_CgroupFileRead ''kubepods'' (mem_resource ''cpuset.cpus''),
                    Call_CgroupFileRead ''kubepods'' (mem_resource ''cpuset.cpus''),
                    Audit ''UpdateCgroups'' ''kubepods/cpuset.cpus'' ''4-5'',
                    Call_CgroupFileWrite ''kubepods'' (mem_resource ''cpuset.cpus'') ''0-5'',
                    Call_CgroupFileRead ''kubepods'' (mem_resource ''cpuset.cpus'')]\<rparr>)"
  by (simp add: merge_eval ex_policy ex_policy_0_5)

text \<open>
  C6. The stored value is the content of the updater's file, as the read primitive
  returns it; the write primitive is assumed to store what it is given (a successful
  write of \<open>v\<close> is followed by a read of \<open>v\<close>). Let the file hold a valid old value
  and let \<^verbatim>\<open>MergeFuncUpdateCgroup\<close> return a nil error. With the scalar-larger
  condition the file then holds an integer equal to \<open>max old new\<close>, which is at least
  \<open>old\<close>. With the set-looser condition, when the canonical string of the merged set
  parses back to that set, the file then holds the set \<open>old \<union> new\<close>, a superset of
  \<open>old\<close>. Hence after any list of successful merge updates on the same file, whatever
  values they request, the stored integer is at least the old one, and the stored set
  contains the old one (for the sets, given that the canonical string of the union of
  two parsed sets parses back to the union).
\<close>

theorem C6_merge_never_decreases:
  assumes law: "\<forall>w v w'. CgroupFileWrite sys w d f v = (None, w') \<longrightarrow>
                  CgroupFileRead sys w' d f = Inr v"
    and rd: "CgroupFileRead sys (world st) d f = Inr oldStr"
  shows
    "(\<forall>resource u c old r' st'.
        assert_Cgroup st resource = Some (u, c) \<longrightarrow> cg_parentDir c = d \<longrightarrow> cg_file c = f \<longrightarrow>
        ParseInt oldStr = Inr old \<longrightarrow>
        MergeFuncUpdateCgroup sys resource MergeConditionIfValueIsLarger st
          = Returned ((r', None), st') \<longrightarrow>
        (\<exists>new stored. ParseInt (cg_value c) = Inr new
           \<and> CgroupFileRead sys (world st') d f = Inr stored
           \<and> ParseInt stored = Inr (max old new) \<and> old \<le> max old new))
     \<and> (\<forall>cp resource u c old r' st'.
        assert_Cgroup st resource = Some (u, c) \<longrightarrow> cg_parentDir c = d \<longrightarrow> cg_file c = f \<longrightarrow>
        cpuset_Parse cp oldStr = Inr old \<longrightarrow>
        (\<forall>new. cpuset_Parse cp (cg_value c) = Inr new \<longrightarrow>
           cpuset_Parse cp (cpuset_String cp (old \<union> new)) = Inr (old \<union> new)) \<longrightarrow>
        MergeFuncUpdateCgroup sys resource (MergeConditionIfCPUSetIsLooser cp) st
          = Returned ((r', None), st') \<longrightarrow>
        (\<exists>new stored S. cpuset_Parse cp (cg_value c) = Inr new
           \<and> CgroupFileRead sys (world st') d f = Inr stored
           \<and> cpuset_Parse cp stored = Inr S \<and> S = old \<union> new \<and> old \<subseteq> S))
     \<and> (\<forall>rs old st'.
        (\<forall>r\<in>set rs. \<exists>u c. assert_Cgroup st r = Some (u, c)
            \<and> cg_parentDir c = d \<and> cg_file c = f) \<longrightarrow>
        ParseInt oldStr = Inr old \<longrightarrow>
        merge_all sys MergeConditionIfValueIsLarger rs st = Some st' \<longrightarrow>
        (\<exists>stored v. CgroupFileRead sys (world st') d f = Inr stored
           \<and> ParseInt stored = Inr v \<and> old \<le> v))
     \<and> (\<forall>cp rs old st'.
        (\<forall>r\<in>set rs. \<exists>u c. assert_Cgroup st r = Some (u, c)
            \<and> cg_parentDir c = d \<and> cg_file c = f) \<longrightarrow>
        cpuset_Parse cp oldStr = Inr old \<longrightarrow>
        (\<forall>s1 s2 A B. cpuset_Parse cp s1 = Inr A \<longrightarrow> cpuset_Parse cp s2 = Inr B \<longrightarrow>
           cpuset_Parse cp (cpuset_String cp (A \<union> B)) = Inr (A \<union> B)) \<longrightarrow>
        merge_all sys (MergeConditionIfCPUSetIsLooser cp) rs st = Some st' \<longrightarrow>
        (\<exists>stored S. CgroupFileRead sys (world st') d f = Inr stored
           \<and> cpuset_Parse cp stored = Inr S \<and> old \<subseteq> S))"
proof (intro conjI allI impI)
  fix resource u c old r' st'
  assume a: "assert_Cgroup st resource = Some (u, c)"
    and d: "cg_parentDir c = d" "cg_file c = f"
    and old: "ParseInt oldStr = Inr old"
    and run: "MergeFuncUpdateCgroup sys resource MergeConditionIfValueIsLarger st
                = Returned ((r', None), st')"
  from merge_scalar_step(1) [OF a _ old run] rd law d
  show "\<exists>new stored. ParseInt (cg_value c) = Inr new
           \<and> CgroupFileRead sys (world st') d f = Inr stored
           \<and> ParseInt stored = Inr (max old new) \<and> old \<le> max old new"
    by auto
next
  fix cp resource u c old r' st'
  assume a: "assert_Cgroup st resource = Some (u, c)"
    and d: "cg_parentDir c = d" "cg_file c = f"
    and old: "cpuset_Parse cp oldStr = Inr old"
    and rt: "\<forall>new. cpuset_Parse cp (cg_value c) = Inr new \<longrightarrow>
           cpuset_Parse cp (cpuset_String cp (old \<union> new)) = Inr (old \<union> new)"
    and run: "MergeFuncUpdateCgroup sys resource (MergeConditionIfCPUSetIsLooser cp) st
                = Returned ((r', None), st')"
  from merge_set_step(1) [OF a _ old run _ rt] rd law d
  show "\<exists>new stored S. cpuset_Parse cp (cg_value c) = Inr new
           \<and> CgroupFileRead sys (world st') d f = Inr stored
           \<and> cpuset_Parse cp stored = Inr S \<and> S = old \<union> new \<and> old \<subseteq> S"
    by auto
next
  fix rs old st'
  assume "\<forall>r\<in>set rs. \<exists>u c. assert_Cgroup st r = Some (u, c)
            \<and> cg_parentDir c = d \<and> cg_file c = f"
    and "ParseInt oldStr = Inr old"
    and "merge_all sys MergeConditionIfValueIsLarger rs st = Some st'"
  then show "\<exists>stored v. CgroupFileRead sys (world st') d f = Inr stored
           \<and> ParseInt stored = Inr v \<and> old \<le> v"
    using rd law by (intro merge_all_scalar)
next
  fix cp rs old st'
  assume "\<forall>r\<in>set rs. \<exists>u c. assert_Cgroup st r = Some (u, c)
            \<and> cg_parentDir c = d \<and> cg_file c = f"
    and "cpuset_Parse cp oldStr = Inr old"
    and "\<forall>s1 s2 A B. cpuset_Parse cp s1 = Inr A \<longrightarrow> cpuset_Parse cp s2 = Inr B \<longrightarrow>
           cpuset_Parse cp (cpuset_String cp (A \<union> B)) = Inr (A \<union> B)"
    and "merge_all sys (MergeConditionIfCPUSetIsLooser cp) rs st = Some st'"
  then show "\<exists>stored S. CgroupFileRead sys (world st') d f = Inr stored
           \<and> cpuset_Parse cp stored = Inr S \<and> old \<subseteq> S"
    using rd law by (intro merge_all_set)
qed

theorem C6_merge_never_decreases_witness:
  "CgroupFileRead mem_sysutil (world ex_merge_state) ''kubepods'' (mem_resource ''memory.min'')
     = Inr ''100''
   \<and> ParseInt ''100'' = Inr 100
   \<and> (\<exists>st'. MergeFuncUpdateCgroup mem_sysutil (Some 1) MergeConditionIfValueIsLarger
                ex_merge_state = Returned ((Some 1, None), st')
         \<and> (\<exists>new stored. ParseInt ''200'' = Inr new
               \<and> CgroupFileRead mem_sysutil (world st') ''kubepods'' (mem_resource ''memory.min'')
                   = Inr stored
               \<and> ParseInt stored = Inr (max 100 new) \<and> 100 \<le> max 100 new))
   \<and> (\<exists>st'. merge_all mem_sysutil MergeConditionIfValueIsLarger [Some 0, Some 1, Some 0]
                ex_merge_state = Some st'
         \<and> (\<exists>stored v.
               CgroupFileRead mem_sysutil (world st') ''kubepods'' (mem_resource ''memory.min'')
                 = Inr stored
               \<and> ParseInt stored = Inr v \<and> 100 \<le> v))
   \<and> CgroupFileRead mem_sysutil (world ex_merge_state) ''kubepods'' (mem_resource ''cpuset.cpus'')
     = Inr ''0-3''
   \<and> cpuset_Parse cpulist ''0-3'' = Inr {0..3}
   \<and> (\<exists>st'. MergeFuncUpdateCgroup mem_sysutil (Some 3) (MergeConditionIfCPUSetIsLooser cpulist)
                ex_merge_state = Returned ((Some 3, None), st')
         \<and> (\<exists>new stored S. cpuset_Parse cpulist ''4-5'' = Inr new
               \<and> CgroupFileRead mem_sysutil (world st') ''kubepods''
                    (mem_resource ''cpuset.cpus'') = Inr stored
               \<and> cpuset_Parse cpulist stored = Inr S \<and> S = {0..3} \<union> new \<and> {0..3} \<subseteq> S))
   \<and> (\<exists>st'. merge_all mem_sysutil (MergeConditionIfCPUSetIsLooser cpulist)
                [Some 2, Some 3, Some 2] ex_merge_state = Some st'
         \<and> (\<exists>stored S.
               CgroupFileRead mem_sysutil (world st') ''kubepods'' (mem_resource ''cpuset.cpus'')
                 = Inr stored
               \<and> cpuset_Parse cpulist stored = Inr S \<and> {0..3} \<subseteq> S))"
proof -
  let ?min = "mem_resource ''memory.min''" and ?cpus = "mem_resource ''cpuset.cpus''"
  have rd_min: "CgroupFileRead mem_sysutil (world ex_merge_state) ''kubepods'' ?min = Inr ''100''"
    and rd_cpus: "CgroupFileRead mem_sysutil (world ex_merge_state) ''kubepods'' ?cpus = Inr ''0-3''"
    by (simp_all add: ex_simps)
  have hundred: "ParseInt ''100'' = Inr 100"
    by (simp add: ParseInt_eval)
  have rt: "\<forall>s1 s2 A B. cpuset_Parse cpulist s1 = Inr A \<longrightarrow> cpuset_Parse cpulist s2 = Inr B \<longrightarrow>
      cpuset_Parse cpulist (cpuset_String cpulist (A \<union> B)) = Inr (A \<union> B)"
    using cpulist_union_roundtrip by blast
  have rt1: "\<forall>new. cpuset_Parse cpulist
               (cg_value (ex_mergeable ''cpuset.cpus'' ''kubepods'' ''4-5''
                            (MergeConditionIfCPUSetIsLooser cpulist))) = Inr new \<longrightarrow>
      cpuset_Parse cpulist (cpuset_String cpulist ({0..3} \<union> new)) = Inr ({0..3} \<union> new)"
    using cpulist_union_roundtrip [OF cpulist_Parse_0_3] by blast
  have all_min: "\<forall>r\<in>set [Some 0, Some 1, Some 0].
      \<exists>u c. assert_Cgroup ex_merge_state r = Some (u, c)
        \<and> cg_parentDir c = ''kubepods'' \<and> cg_file c = ?min"
    by (simp add: ex_assert [simplified] ex_fields)
  have all_cpus: "\<forall>r\<in>set [Some 2, Some 3, Some 2].
      \<exists>u c. assert_Cgroup ex_merge_state r = Some (u, c)
        \<and> cg_parentDir c = ''kubepods'' \<and> cg_file c = ?cpus"
    by (simp add: ex_assert [simplified] ex_fields)
  note scalar = C6_merge_never_decreases
    [OF mem_sysutil_read_after_write rd_min]
  note sets = C6_merge_never_decreases
    [OF mem_sysutil_read_after_write rd_cpus]
  from scalar [THEN conjunct1, rule_format, OF ex_assert(2) _ _ hundred ex_run_scalar]
  have 1: "\<exists>new stored. ParseInt ''200'' = Inr new
      \<and> CgroupFileRead mem_sysutil
           (world (ex_merge_state\<lparr>world := ex_files(''kubepods/memory.min'' \<mapsto> ''200''),
              trace := [Call_CgroupFileRead ''kubepods'' ?min,
                        Audit ''UpdateCgroups'' ''kubepods/memory.min'' ''200'',
                        Call_CgroupFileWrite ''kubepods'' ?min ''200'']\<rparr>))
           ''kubepods'' ?min = Inr stored
      \<and> ParseInt stored = Inr (max 100 new) \<and> 100 \<le> max 100 new"
    by (simp add: ex_fields)
  from scalar [THEN conjunct2, THEN conjunct2, THEN conjunct1, rule_format,
      OF all_min [rule_format] hundred ex_merge_all_scalar]
  have 2: "\<exists>stored v.
      CgroupFileRead mem_sysutil (world (ex_merge_state
         \<lparr>heap := heap ex_merge_state @
            [CgroupObj (ex_mergeable ''memory.min'' ''kubepods'' ''100''
                          MergeConditionIfValueIsLarger),
             CgroupObj (ex_mergeable ''memory.min'' ''kubepods'' ''200''
                          MergeConditionIfValueIsLarger)],
          world := ex_files(''kubepods/memory.min'' \<mapsto> ''200''),
          trace := [Call_CgroupFileRead ''kubepods'' ?min,
                    Call_CgroupFileRead ''kubepods'' ?min,
                    Audit ''UpdateCgroups'' ''kubepods/memory.min'' ''200'',
                    Call_CgroupFileWrite ''kubepods'' ?min ''200'',
                    Call_CgroupFileRead ''kubepods'' ?min]\<rparr>)) ''kubepods'' ?min = Inr stored
      \<and> ParseInt stored = Inr v \<and> 100 \<le> v" .
  from sets [THEN conjunct2, THEN conjunct1, rule_format,
      OF ex_assert(4) _ _ cpulist_Parse_0_3 _ ex_run_set] rt1
  have 3: "\<exists>new stored S. cpuset_Parse cpulist ''4-5'' = Inr new
      \<and> CgroupFileRead mem_sysutil
           (world (ex_merge_state\<lparr>world := ex_files(''kubepods/cpuset.cpus'' \<mapsto> ''0-5''),
              trace := [Call_CgroupFileRead ''kubepods'' ?cpus,
                        Audit ''UpdateCgroups'' ''kubepods/cpuset.cpus'' ''4-5'',
                        Call_CgroupFileWrite ''kubepods'' ?cpus ''0-5'']\<rparr>))
           ''kubepods'' ?cpus = Inr stored
      \<and> cpuset_Parse cpulist stored = Inr S \<and> S = {0..3} \<union> new \<and> {0..3} \<subseteq> S"
    by (simp add: ex_fields)
  from sets [THEN conjunct2, THEN conjunct2, THEN conjunct2, rule_format,
      OF all_cpus [rule_format] cpulist_Parse_0_3 _ ex_merge_all_set] rt
  have 4: "\<exists>stored S.
      CgroupFileRead mem_sysutil (world (ex_merge_state
         \<lparr>heap := heap ex_merge_state @
            [CgroupObj (ex_mergeable ''cpuset.cpus'' ''kubepods'' ''0-3''
                          (MergeConditionIfCPUSetIsLooser cpulist)),
             CgroupObj (ex_mergeable ''cpuset.cpus'' ''kubepods'' ''0-5''
                          (MergeConditionIfCPUSetIsLooser cpulist))],
          world := ex_files(''kubepods/cpuset.cpus'' \<mapsto> ''0-5''),
          trace := [Call_CgroupFileRead ''kubepods'' ?cpus,
                    Call_CgroupFileRead ''kubepods'' ?cpus,
                    Audit ''UpdateCgroups'' ''kubepods/cpuset.cpus'' ''4-5'',
                    Call_CgroupFileWrite ''kubepods'' ?cpus ''0-5'',
                    Call_CgroupFileRead ''kubepods'' ?cpus]\<rparr>)) ''kubepods'' ?cpus = Inr stored
      \<and> cpuset_Parse cpulist stored = Inr S \<and> {0..3} \<subseteq> S"
    by blast
  show ?thesis
    apply (intro conjI)
         apply (rule rd_min)
        apply (rule hundred)
       apply (rule exI, rule conjI, rule ex_run_scalar, rule 1)
      apply (rule exI, rule conjI, rule ex_merge_all_scalar, rule 2)
     apply (rule rd_cpus)
     apply (rule cpulist_Parse_0_3)
   apply (rule exI, rule conjI, rule ex_run_set, rule 3)
  apply (rule exI, rule conjI, rule ex_merge_all_set, rule 4)
  done
qed

end
